theory Spec2Isabelle
  imports Complex_Main "HOL-Library.Word" "HOL-Library.Multiset"
begin

section \<open>Buffer organizer of Hermes: cost model\<close>

text \<open>
  The source computes access scores in \<open>f32\<close>. The embedding uses exact rational
  arithmetic for every \<open>f32\<close> and \<open>double\<close> value: no rounding, and no infinities or
  NaN. The one place where the exact result does not exist, a division by zero (IEEE
  gives an infinity or NaN there), is an error value of the model. The blob organizer
  goes on with such a score; its model, further down, computes with the infinities and
  NaN, and agrees with this one on every finite score.
\<close>

type_synonym f32 = rat
type_synonym u8 = "8 word"
type_synonym u32 = "32 word"
type_synonym u64 = "64 word"

text \<open>The ID unions (\<open>BufferID\<close>, \<open>TargetID\<close>, ...) through their \<open>as_int\<close> member.\<close>

type_synonym BufferID = u64
type_synonym BucketID = u64
type_synonym VBucketID = u64
type_synonym BlobID = u64
type_synonym TargetID = u64

datatype fp_error = DivisionByZero

text \<open>\<open>a / b\<close> on floats, defined only for a non-zero divisor.\<close>

definition fdiv :: "f32 \<Rightarrow> f32 \<Rightarrow> fp_error + f32" where
  "fdiv a b = (if b = 0 then Inl DivisionByZero else Inr (a / b))"

text \<open>
  \<open>struct BufferInfo { BufferID id; f32 bandwidth_mbps; size_t size; }\<close>: the fields
  that \<open>operator==\<close> compares and \<open>serialize\<close> writes.
\<close>

record BufferInfo =
  info_id :: BufferID
  bandwidth_mbps :: f32
  info_size :: u64

text \<open>The two fields of \<open>BufferPool\<close> that \<open>NormalizeAccessScore\<close> reads.\<close>

record BufferPool =
  min_device_bw_mbps :: f32
  max_device_bw_mbps :: f32

definition NormalizeAccessScore :: "BufferPool \<Rightarrow> f32 \<Rightarrow> f32 \<Rightarrow> fp_error + f32" where
  "NormalizeAccessScore pool raw_score size_mb =
     (let min_seconds = size_mb * min_device_bw_mbps pool;
          max_seconds = size_mb * max_device_bw_mbps pool;
          range = max_seconds - min_seconds;
          adjusted_score = raw_score - min_seconds
      in fdiv adjusted_score range)"

text \<open>\<open>MEGABYTES(1)\<close> is \<open>2^20\<close> bytes.\<close>

definition BytesToMegabytes :: "u64 \<Rightarrow> f32" where
  "BytesToMegabytes bytes = of_nat (unat bytes) / 1048576"

text \<open>
  The loop of \<open>ComputeBlobAccessScore\<close>, with its two accumulators \<open>raw_score\<close> and
  \<open>total_blob_size_mb\<close>.
\<close>

fun access_loop :: "BufferInfo list \<Rightarrow> f32 \<Rightarrow> f32 \<Rightarrow> fp_error + (f32 \<times> f32)" where
  "access_loop [] raw_score total_blob_size_mb = Inr (raw_score, total_blob_size_mb)"
| "access_loop (b # bs) raw_score total_blob_size_mb =
     (let size_in_mb = BytesToMegabytes (info_size b) in
      case fdiv 1 (bandwidth_mbps b) of
        Inl e \<Rightarrow> Inl e
      | Inr seconds_per_mb \<Rightarrow>
          (let total_seconds = size_in_mb * seconds_per_mb
           in access_loop bs (raw_score + total_seconds) (total_blob_size_mb + size_in_mb)))"

definition ComputeBlobAccessScore :: "BufferPool \<Rightarrow> BufferInfo list \<Rightarrow> fp_error + f32" where
  "ComputeBlobAccessScore pool buffer_info =
     (case access_loop buffer_info 0 0 of
        Inl e \<Rightarrow> Inl e
      | Inr (raw_score, total_blob_size_mb) \<Rightarrow>
          NormalizeAccessScore pool raw_score total_blob_size_mb)"

section \<open>Sorting buffers and targets\<close>

text \<open>
  \<open>std::sort(first, last, comp)\<close>: the result is a permutation of the input in which
  no element is \<open>comp\<close>-before an element to its left. The order of equivalent
  elements is unspecified in C++; the model is an insertion sort that keeps them in
  input order.
\<close>

fun sort_insert :: "('a \<Rightarrow> 'a \<Rightarrow> bool) \<Rightarrow> 'a \<Rightarrow> 'a list \<Rightarrow> 'a list" where
  "sort_insert cmp x [] = [x]"
| "sort_insert cmp x (y # ys) =
     (if cmp y x then y # sort_insert cmp x ys else x # y # ys)"

fun std_sort :: "('a \<Rightarrow> 'a \<Rightarrow> bool) \<Rightarrow> 'a list \<Rightarrow> 'a list" where
  "std_sort cmp [] = []"
| "std_sort cmp (x # xs) = sort_insert cmp x (std_sort cmp xs)"

text \<open>\<open>struct TargetInfo { TargetID id; f32 bandwidth_mbps; u64 capacity; }\<close>\<close>

record TargetInfo =
  target_id :: TargetID
  target_bandwidth_mbps :: f32
  target_capacity :: u64

text \<open>
  The comparator that the macro \<open>HERMES_BUFFER_INFO_COMPARATOR(direction, comp)\<close>
  expands to, with \<open>comp\<close> as the parameter \<open>cmp\<close>.
\<close>

definition buffer_info_comparator ::
  "(f32 \<Rightarrow> f32 \<Rightarrow> bool) \<Rightarrow> BufferInfo \<Rightarrow> BufferInfo \<Rightarrow> bool" where
  "buffer_info_comparator cmp lhs rhs =
     (if bandwidth_mbps lhs = bandwidth_mbps rhs then info_size rhs < info_size lhs
      else cmp (bandwidth_mbps lhs) (bandwidth_mbps rhs))"

definition SortBufferInfo :: "BufferInfo list \<Rightarrow> bool \<Rightarrow> BufferInfo list" where
  "SortBufferInfo buffer_info increasing =
     (if increasing
      then std_sort (buffer_info_comparator (\<lambda>l r. r < l)) buffer_info
      else std_sort (buffer_info_comparator (\<lambda>l r. l < r)) buffer_info)"

definition increasing_target_info_comparator :: "TargetInfo \<Rightarrow> TargetInfo \<Rightarrow> bool" where
  "increasing_target_info_comparator lhs rhs =
     (target_bandwidth_mbps rhs < target_bandwidth_mbps lhs)"

definition decreasing_target_info_comparator :: "TargetInfo \<Rightarrow> TargetInfo \<Rightarrow> bool" where
  "decreasing_target_info_comparator lhs rhs =
     (target_bandwidth_mbps lhs < target_bandwidth_mbps rhs)"

definition SortTargetInfo :: "TargetInfo list \<Rightarrow> bool \<Rightarrow> TargetInfo list" where
  "SortTargetInfo target_info increasing =
     (if increasing
      then std_sort increasing_target_info_comparator target_info
      else std_sort decreasing_target_info_comparator target_info)"

section \<open>Move executor\<close>

text \<open>
  \<open>BufferHeader\<close> is declared outside these files; \<open>BoMove\<close> reads its fields
  \<open>capacity\<close> (into a \<open>u32\<close>) and \<open>used\<close>.
\<close>

record BufferHeader =
  capacity :: u32
  used :: u32

text \<open>
  What \<open>BoMove\<close> asks of the shared-memory context, as the answers it gets:
  whether \<open>LocalLockBlob\<close> acquires the lock, the header of a buffer (\<open>None\<close> for the
  null pointer) and the bytes a buffer holds.
\<close>

record MoveContext =
  LocalLockBlob :: "BlobID \<Rightarrow> bool"
  GetHeaderByBufferId :: "BufferID \<Rightarrow> BufferHeader option"
  buffer_bytes :: "BufferID \<Rightarrow> u8 list"

text \<open>
  Modelled from the spec: \<open>LocalReadBufferById\<close> is not in these files; it reads the
  full source buffer's \<open>used\<close> bytes into the blob. The blob's storage is the vector
  \<open>src_data\<close> of \<open>used\<close> zero bytes, so the result always has \<open>used\<close> bytes.
\<close>

definition LocalReadBufferById :: "MoveContext \<Rightarrow> BufferID \<Rightarrow> nat \<Rightarrow> u8 list" where
  "LocalReadBufferById ctx src n = take n (buffer_bytes ctx src @ replicate n 0)"

text \<open>
  What \<open>BoMove\<close> does to the outside, in order. \<open>WriteBuffer dest portion offset\<close> is
  the call \<open>LocalWriteBufferById(context, dest, blob_portion, offset)\<close>, with the bytes
  of \<open>blob_portion\<close>.
\<close>

datatype move_event =
    WriteBuffer BufferID "u8 list" nat
  | WarnBufferNotFound BufferID
  | WarnLockFailed BlobID
  | UnlockBlob BlobID

datatype move_outcome = MoveReturned | AssertionFailed

text \<open>The conversion of an \<open>i64\<close> to \<open>size_t\<close>, and the value an integer has as an
  \<open>i64\<close> (two's complement, 64 bits).\<close>

definition size_t_of_i64 :: "int \<Rightarrow> nat" where
  "size_t_of_i64 v = nat (v mod 2 ^ 64)"

definition i64_wrap :: "int \<Rightarrow> int" where
  "i64_wrap v = (if v mod 2 ^ 64 < 2 ^ 63 then v mod 2 ^ 64 else v mod 2 ^ 64 - 2 ^ 64)"

text \<open>
  The loop over \<open>destinations\<close>: \<open>offset\<close> is a \<open>size_t\<close>, \<open>remaining_src_size\<close> an
  \<open>i64\<close>; the blob portion is the \<open>portion_size\<close> bytes of the blob from \<open>offset\<close>.
  In \<open>BoMove\<close> the \<open>assert\<close> is taken as compiled in: when it fails the
  function does not return and the blob lock is not released.
\<close>

fun move_loop ::
  "MoveContext \<Rightarrow> u8 list \<Rightarrow> BufferID list \<Rightarrow> nat \<Rightarrow> int \<Rightarrow> move_event list \<times> nat \<times> int" where
  "move_loop ctx blob [] offset remaining_src_size = ([], offset, remaining_src_size)"
| "move_loop ctx blob (dest # rest) offset remaining_src_size =
     (case GetHeaderByBufferId ctx dest of
        Some dest_header \<Rightarrow>
          (let dest_capacity = capacity dest_header;
               portion_size = size_t_of_i64 (min (uint dest_capacity) remaining_src_size);
               blob_portion = take portion_size (drop offset blob);
               (events, offset', remaining') =
                 move_loop ctx blob rest ((offset + portion_size) mod 2 ^ 64)
                   (i64_wrap (remaining_src_size - int portion_size))
           in (WriteBuffer dest blob_portion offset # events, offset', remaining'))
      | None \<Rightarrow>
          (let (events, offset', remaining') = move_loop ctx blob rest offset remaining_src_size
           in (WarnBufferNotFound dest # events, offset', remaining')))"

definition BoMove ::
  "MoveContext \<Rightarrow> BufferID \<Rightarrow> BufferID list \<Rightarrow> BlobID \<Rightarrow> move_event list \<times> move_outcome" where
  "BoMove ctx src destinations blob_id =
     (if LocalLockBlob ctx blob_id then
        (case GetHeaderByBufferId ctx src of
           Some src_header \<Rightarrow>
             (let blob = LocalReadBufferById ctx src (unat (used src_header));
                  (events, offset, remaining_src_size) =
                    move_loop ctx blob destinations 0 (i64_wrap (int (length blob)))
              in if remaining_src_size = 0 then (events @ [UnlockBlob blob_id], MoveReturned)
                 else (events, AssertionFailed))
         | None \<Rightarrow> ([WarnBufferNotFound src, UnlockBlob blob_id], MoveReturned))
      else ([WarnLockFailed blob_id], MoveReturned))"

text \<open>The writes of a trace, in order: destination, bytes, offset argument.\<close>

fun writes_of :: "move_event list \<Rightarrow> (BufferID \<times> u8 list \<times> nat) list" where
  "writes_of [] = []"
| "writes_of (WriteBuffer dest portion offset # events) =
     (dest, portion, offset) # writes_of events"
| "writes_of (_ # events) = writes_of events"

text \<open>The capacity of a destination as \<open>BoMove\<close> sees it; 0 when the header does not resolve.\<close>

definition capacity_of :: "MoveContext \<Rightarrow> BufferID \<Rightarrow> nat" where
  "capacity_of ctx dest =
     (case GetHeaderByBufferId ctx dest of Some h \<Rightarrow> unat (capacity h) | None \<Rightarrow> 0)"

text \<open>
  A list of writes runs from \<open>offset\<close> when every write's offset argument is \<open>offset\<close>
  plus the number of bytes of the writes before it.
\<close>

fun runs_from :: "nat \<Rightarrow> (BufferID \<times> u8 list \<times> nat) list \<Rightarrow> bool" where
  "runs_from offset [] = True"
| "runs_from offset ((dest, portion, arg) # ws) =
     (arg = offset \<and> runs_from (offset + length portion) ws)"

section \<open>Scores with infinities and NaN\<close>

text \<open>
  \<open>LocalOrganizeBlob\<close> has no test for a score that is not finite: it compares and
  subtracts whatever \<open>ComputeBlobAccessScore\<close> returns. Its model therefore computes
  the scores in \<open>f32x\<close>: a rational, an infinity or NaN, with the IEEE 754 rules for
  the special values and, as everywhere in this theory, no rounding. There is one zero,
  taken as \<open>+0\<close>: a non-zero \<open>x\<close> divided by zero is the infinity with the sign of \<open>x\<close>,
  and \<open>0 / 0\<close> is NaN. A comparison with NaN is false.
\<close>

datatype f32x = Finite rat | PosInf | NegInf | NaN

fun fx_neg :: "f32x \<Rightarrow> f32x" where
  "fx_neg (Finite a) = Finite (- a)"
| "fx_neg PosInf = NegInf"
| "fx_neg NegInf = PosInf"
| "fx_neg NaN = NaN"

fun fx_add :: "f32x \<Rightarrow> f32x \<Rightarrow> f32x" where
  "fx_add (Finite a) (Finite b) = Finite (a + b)"
| "fx_add NaN y = NaN"
| "fx_add x NaN = NaN"
| "fx_add PosInf NegInf = NaN"
| "fx_add NegInf PosInf = NaN"
| "fx_add PosInf y = PosInf"
| "fx_add x PosInf = PosInf"
| "fx_add NegInf y = NegInf"
| "fx_add x NegInf = NegInf"

definition fx_sub :: "f32x \<Rightarrow> f32x \<Rightarrow> f32x" where
  "fx_sub x y = fx_add x (fx_neg y)"

text \<open>The infinity of the given sign.\<close>

definition fx_inf :: "bool \<Rightarrow> f32x" where
  "fx_inf positive = (if positive then PosInf else NegInf)"

fun fx_mul :: "f32x \<Rightarrow> f32x \<Rightarrow> f32x" where
  "fx_mul (Finite a) (Finite b) = Finite (a * b)"
| "fx_mul NaN y = NaN"
| "fx_mul x NaN = NaN"
| "fx_mul PosInf (Finite b) = (if b = 0 then NaN else fx_inf (0 < b))"
| "fx_mul NegInf (Finite b) = (if b = 0 then NaN else fx_inf (b < 0))"
| "fx_mul (Finite a) PosInf = (if a = 0 then NaN else fx_inf (0 < a))"
| "fx_mul (Finite a) NegInf = (if a = 0 then NaN else fx_inf (a < 0))"
| "fx_mul PosInf PosInf = PosInf"
| "fx_mul NegInf NegInf = PosInf"
| "fx_mul PosInf NegInf = NegInf"
| "fx_mul NegInf PosInf = NegInf"

fun fx_div :: "f32x \<Rightarrow> f32x \<Rightarrow> f32x" where
  "fx_div (Finite a) (Finite b) =
     (if b = 0 then (if a = 0 then NaN else fx_inf (0 < a)) else Finite (a / b))"
| "fx_div NaN y = NaN"
| "fx_div x NaN = NaN"
| "fx_div PosInf (Finite b) = fx_inf (0 \<le> b)"
| "fx_div NegInf (Finite b) = fx_inf (b < 0)"
| "fx_div (Finite a) PosInf = Finite 0"
| "fx_div (Finite a) NegInf = Finite 0"
| "fx_div x y = NaN"

text \<open>\<open>fx_less x y\<close> is the comparison \<open>x < y\<close>; \<open>x > y\<close> is \<open>fx_less y x\<close>.\<close>

fun fx_less :: "f32x \<Rightarrow> f32x \<Rightarrow> bool" where
  "fx_less (Finite a) (Finite b) = (a < b)"
| "fx_less NaN y = False"
| "fx_less x NaN = False"
| "fx_less PosInf y = False"
| "fx_less x NegInf = False"
| "fx_less x PosInf = True"
| "fx_less NegInf y = True"

fun fx_abs :: "f32x \<Rightarrow> f32x" where
  "fx_abs (Finite a) = Finite \<bar>a\<bar>"
| "fx_abs PosInf = PosInf"
| "fx_abs NegInf = PosInf"
| "fx_abs NaN = NaN"

fun is_finite :: "f32x \<Rightarrow> bool" where
  "is_finite (Finite a) = True"
| "is_finite x = False"

text \<open>
  \<open>NormalizeAccessScore\<close> and \<open>ComputeBlobAccessScore\<close> once more, line by line, in
  \<open>f32x\<close>. The bandwidths and sizes that come in are finite.
\<close>

definition NormalizeAccessScore_x :: "BufferPool \<Rightarrow> f32x \<Rightarrow> f32x \<Rightarrow> f32x" where
  "NormalizeAccessScore_x pool raw_score size_mb =
     (let min_seconds = fx_mul size_mb (Finite (min_device_bw_mbps pool));
          max_seconds = fx_mul size_mb (Finite (max_device_bw_mbps pool));
          range = fx_sub max_seconds min_seconds;
          adjusted_score = fx_sub raw_score min_seconds
      in fx_div adjusted_score range)"

fun access_loop_x :: "BufferInfo list \<Rightarrow> f32x \<Rightarrow> f32x \<Rightarrow> f32x \<times> f32x" where
  "access_loop_x [] raw_score total_blob_size_mb = (raw_score, total_blob_size_mb)"
| "access_loop_x (b # bs) raw_score total_blob_size_mb =
     (let size_in_mb = Finite (BytesToMegabytes (info_size b));
          seconds_per_mb = fx_div (Finite 1) (Finite (bandwidth_mbps b));
          total_seconds = fx_mul size_in_mb seconds_per_mb
      in access_loop_x bs (fx_add raw_score total_seconds)
           (fx_add total_blob_size_mb size_in_mb))"

definition ComputeBlobAccessScore_x :: "BufferPool \<Rightarrow> BufferInfo list \<Rightarrow> f32x" where
  "ComputeBlobAccessScore_x pool buffer_info =
     (case access_loop_x buffer_info (Finite 0) (Finite 0) of
        (raw_score, total_blob_size_mb) \<Rightarrow>
          NormalizeAccessScore_x pool raw_score total_blob_size_mb)"

section \<open>Blob organizer\<close>

text \<open>\<open>PlacementSchema\<close> is a vector of pairs \<open>(size, TargetID)\<close>.\<close>

type_synonym PlacementSchema = "(u64 \<times> TargetID) list"

datatype BoPriority = kLow | kHigh

text \<open>
  The calls of \<open>LocalOrganizeBlob\<close> into the metadata manager and the buffer pool, as
  functions of a state \<open>'st\<close> of the shared memory. \<open>GetBuffers\<close> allocates, so it
  returns the new state with the buffers.
\<close>

record 'st OrganizerEnv =
  LocalGetNodeTargets :: "'st \<Rightarrow> TargetID list"
  GetBandwidths :: "'st \<Rightarrow> TargetID list \<Rightarrow> f32 list"
  GetRemainingTargetCapacities :: "'st \<Rightarrow> TargetID list \<Rightarrow> u64 list"
  GetBuffers :: "'st \<Rightarrow> PlacementSchema \<Rightarrow> BufferID list \<times> 'st"

datatype organize_error = IndexOutOfRange

text \<open>
  Lines 284 to 294: the vector \<open>target_info\<close>, one entry per target. Reading
  \<open>target_bandwidths_mbps[j]\<close> or \<open>capacities[j]\<close> past the end of a shorter vector is
  undefined in C++ and an error of the model.
\<close>

definition snapshot_target_info :: "'st OrganizerEnv \<Rightarrow> 'st \<Rightarrow> organize_error + TargetInfo list" where
  "snapshot_target_info env st =
     (let targets = LocalGetNodeTargets env st;
          target_bandwidths_mbps = GetBandwidths env st targets;
          capacities = GetRemainingTargetCapacities env st targets
      in if length target_bandwidths_mbps < length targets \<or> length capacities < length targets
         then Inl IndexOutOfRange
         else Inr (map (\<lambda>j. \<lparr>target_id = targets ! j,
                               target_bandwidth_mbps = target_bandwidths_mbps ! j,
                               target_capacity = capacities ! j\<rparr>) [0..<length targets]))"

text \<open>Lines 300 to 307: the first target with \<open>capacity > size\<close>, if there is one.\<close>

fun choose_target :: "TargetInfo list \<Rightarrow> u64 \<Rightarrow> TargetInfo option" where
  "choose_target [] buffer_size = None"
| "choose_target (t # ts) buffer_size =
     (if buffer_size < target_capacity t then Some t else choose_target ts buffer_size)"

text \<open>
  Lines 297 to 307: \<open>src_buffer_id\<close>, \<open>schema\<close> and \<open>new_bandwidth_mbps\<close> after the
  search; they keep their initial values (\<open>{}\<close>, empty, 0) when no target is chosen.
\<close>

definition choose_placement :: "TargetInfo list \<Rightarrow> BufferInfo \<Rightarrow> BufferID \<times> PlacementSchema \<times> f32" where
  "choose_placement target_info b =
     (case choose_target target_info (info_size b) of
        Some t \<Rightarrow> (info_id b, [(info_size b, target_id t)], target_bandwidth_mbps t)
      | None \<Rightarrow> (0, [], 0))"

text \<open>Lines 320 to 327: the copy \<open>new_buffer_info\<close> with the new bandwidth.\<close>

definition substitute_bandwidth :: "BufferInfo list \<Rightarrow> BufferID \<Rightarrow> f32 \<Rightarrow> BufferInfo list" where
  "substitute_bandwidth buffer_info src_buffer_id new_bandwidth_mbps =
     map (\<lambda>b. if info_id b = src_buffer_id
               then b\<lparr>info_id := src_buffer_id, bandwidth_mbps := new_bandwidth_mbps\<rparr>
               else b) buffer_info"

text \<open>
  Lines 330 to 342: the value of \<open>move_is_valid\<close>. The importance score and
  \<open>epsilon\<close> are finite numbers; the new access score is whatever was computed.
\<close>

definition move_is_valid :: "bool \<Rightarrow> f32x \<Rightarrow> f32 \<Rightarrow> rat \<Rightarrow> bool" where
  "move_is_valid increasing_access_score new_access_score importance_score epsilon =
     (if increasing_access_score
      then \<not> (fx_less (Finite importance_score) new_access_score \<and>
                fx_less (Finite epsilon) (fx_sub new_access_score (Finite importance_score)))
      else \<not> (fx_less new_access_score (Finite importance_score) \<and>
                fx_less (Finite epsilon) (fx_sub (Finite importance_score) new_access_score)))"

text \<open>
  A call \<open>LocalEnqueueBoMove(context, src, dest, blob_id, priority)\<close>. The last field
  is not an argument of the call: it records the \<open>new_access_score\<close> of the iteration
  that made the call.
\<close>

record EnqueuedMove =
  move_src :: BufferID
  move_dest :: "BufferID list"
  move_blob_id :: BlobID
  move_priority :: BoPriority
  predicted_score :: f32x

text \<open>
  The loop over the sorted \<open>buffer_info\<close> (lines 283 to 353). The second list is what
  is left to visit. The result is the calls of \<open>LocalEnqueueBoMove\<close> in order, the
  final state, and the error that stopped the loop, if any.
\<close>

fun organize_loop ::
  "'st OrganizerEnv \<Rightarrow> BufferPool \<Rightarrow> BlobID \<Rightarrow> f32 \<Rightarrow> rat \<Rightarrow> bool \<Rightarrow> BufferInfo list \<Rightarrow>
   BufferInfo list \<Rightarrow> 'st \<Rightarrow> EnqueuedMove list \<times> 'st \<times> organize_error option" where
  "organize_loop env pool blob_id importance_score epsilon increasing buffer_info [] st =
     ([], st, None)"
| "organize_loop env pool blob_id importance_score epsilon increasing buffer_info (b # rest) st =
     (case snapshot_target_info env st of
        Inl e \<Rightarrow> ([], st, Some e)
      | Inr target_info \<Rightarrow>
          (case choose_placement (SortTargetInfo target_info increasing) b of
             (src_buffer_id, schema, new_bandwidth_mbps) \<Rightarrow>
               (case GetBuffers env st schema of
                  (dest, st') \<Rightarrow>
                    if dest = []
                    then organize_loop env pool blob_id importance_score epsilon increasing
                           buffer_info rest st'
                    else
                      (let new_access_score =
                             ComputeBlobAccessScore_x pool
                               (substitute_bandwidth buffer_info src_buffer_id new_bandwidth_mbps);
                           enqueued =
                             (if move_is_valid increasing new_access_score importance_score epsilon
                              then [\<lparr>move_src = src_buffer_id, move_dest = dest,
                                     move_blob_id = blob_id, move_priority = kLow,
                                     predicted_score = new_access_score\<rparr>]
                              else [])
                       in if fx_less (fx_abs (fx_sub (Finite importance_score) new_access_score))
                               (Finite epsilon)
                          then (enqueued, st', None)
                          else
                            (case organize_loop env pool blob_id importance_score epsilon
                                    increasing buffer_info rest st' of
                               (moves, st'', err) \<Rightarrow> (enqueued @ moves, st'', err))))))"

text \<open>
  \<open>LocalOrganizeBlob\<close>. The results of the lookups before the loop are parameters:
  \<open>blob_id\<close> (\<open>LocalGet\<close>), \<open>stored_importance\<close> (\<open>LocalGetBlobImportanceScore\<close>) and
  \<open>buffer_info\<close> (\<open>GetBufferInfo\<close> of the blob's buffer list).
\<close>

definition LocalOrganizeBlob ::
  "'st OrganizerEnv \<Rightarrow> BufferPool \<Rightarrow> 'st \<Rightarrow> BlobID \<Rightarrow> f32 \<Rightarrow> BufferInfo list \<Rightarrow> rat \<Rightarrow> f32 \<Rightarrow>
   EnqueuedMove list \<times> 'st \<times> organize_error option" where
  "LocalOrganizeBlob env pool st blob_id stored_importance buffer_info epsilon
       explicit_importance_score =
     (let importance_score =
            (if explicit_importance_score = - 1 then stored_importance
             else explicit_importance_score);
          access_score = ComputeBlobAccessScore_x pool buffer_info;
          increasing_access_score = fx_less access_score (Finite importance_score);
          sorted_info = SortBufferInfo buffer_info increasing_access_score
      in organize_loop env pool blob_id importance_score epsilon
           increasing_access_score sorted_info sorted_info st)"

section \<open>Flush coordinator\<close>

text \<open>
  The async-flush counters of one node, by vbucket name: \<open>None\<close> when
  \<open>LocalGetVBucketInfoById\<close> returns the null pointer. The counter is a
  \<open>std::atomic<int>\<close>; \<open>fetch_add\<close> wraps at 32 bits.
\<close>

type_synonym vbucket_counts = "string \<Rightarrow> u32 option"

text \<open>The counters of every node, by node id.\<close>

type_synonym cluster = "nat \<Rightarrow> vbucket_counts"

definition LocalAdjustFlushCount :: "vbucket_counts \<Rightarrow> string \<Rightarrow> u32 \<Rightarrow> vbucket_counts" where
  "LocalAdjustFlushCount counts vbkt_name adjustment =
     (case counts vbkt_name of
        Some flush_count \<Rightarrow> counts(vbkt_name \<mapsto> flush_count + adjustment)
      | None \<Rightarrow> counts)"

definition LocalIncrementFlushCount :: "vbucket_counts \<Rightarrow> string \<Rightarrow> vbucket_counts" where
  "LocalIncrementFlushCount counts vbkt_name = LocalAdjustFlushCount counts vbkt_name 1"

definition LocalDecrementFlushCount :: "vbucket_counts \<Rightarrow> string \<Rightarrow> vbucket_counts" where
  "LocalDecrementFlushCount counts vbkt_name = LocalAdjustFlushCount counts vbkt_name (- 1)"

text \<open>
  What the flush functions read of the \<open>RpcContext\<close> and the metadata manager: the id
  of this node, \<open>HashString\<close> and \<open>BlobIsInSwap\<close>.
\<close>

record FlushEnv =
  node_id :: nat
  HashString :: "string \<Rightarrow> nat"
  BlobIsInSwap :: "BlobID \<Rightarrow> bool"

text \<open>
  Modelled from the spec: the handlers of the calls \<open>RemoteIncrementFlushCount\<close> and
  \<open>RemoteDecrementFlushCount\<close> are not in these files; the calls route to the
  authoritative node of the vbucket, which updates its counter.
\<close>

definition RemoteIncrementFlushCount :: "cluster \<Rightarrow> nat \<Rightarrow> string \<Rightarrow> cluster" where
  "RemoteIncrementFlushCount cl target_node vbkt_name =
     cl(target_node := LocalIncrementFlushCount (cl target_node) vbkt_name)"

definition RemoteDecrementFlushCount :: "cluster \<Rightarrow> nat \<Rightarrow> string \<Rightarrow> cluster" where
  "RemoteDecrementFlushCount cl target_node vbkt_name =
     cl(target_node := LocalDecrementFlushCount (cl target_node) vbkt_name)"

definition IncrementFlushCount :: "FlushEnv \<Rightarrow> cluster \<Rightarrow> string \<Rightarrow> cluster" where
  "IncrementFlushCount env cl vbkt_name =
     (let target_node = HashString env vbkt_name
      in if target_node = node_id env
         then cl(node_id env := LocalIncrementFlushCount (cl (node_id env)) vbkt_name)
         else RemoteIncrementFlushCount cl target_node vbkt_name)"

definition DecrementFlushCount :: "FlushEnv \<Rightarrow> cluster \<Rightarrow> string \<Rightarrow> cluster" where
  "DecrementFlushCount env cl vbkt_name =
     (let target_node = HashString env vbkt_name
      in if target_node = node_id env
         then cl(node_id env := LocalDecrementFlushCount (cl (node_id env)) vbkt_name)
         else RemoteDecrementFlushCount cl target_node vbkt_name)"

text \<open>
  The answers that one run of \<open>FlushBlob\<close> gets from \<open>LockBlob\<close> and from the system
  calls \<open>access\<close>, \<open>open\<close>, \<open>flock\<close> (lock and unlock) and \<open>close\<close>.
\<close>

record FlushAnswers =
  lock_acquired :: bool
  file_exists :: bool
  open_ok :: bool
  flock_ex_ok :: bool
  flock_un_ok :: bool
  close_ok :: bool

datatype flush_event =
    LockedBlob BlobID
  | OpenedFile string bool
  | LockedFile
  | PersistedBlob BlobID u64
  | UnlockedFile
  | ClosedFile
  | UnlockedBlob BlobID
  | IncrementedFlushCount string
  | DecrementedFlushCount string
  | Dispatched BlobID string u64 bool

text \<open>
  Modelled from the spec: \<open>FailedLibraryCall\<close> is not in these files; it is fatal by
  contract, so the task ends there. The value names the library call that failed.
\<close>

datatype fatal = FailedLibraryCall string

text \<open>
  The part of \<open>FlushBlob\<close> under the blob lock (lines 379 to 416): its events, and the
  failed library call if there is one. \<open>OpenedFile filename create\<close> is the \<open>open\<close>,
  with \<open>create\<close> when the flags have \<open>O_CREAT | O_TRUNC\<close>.
\<close>

definition flush_locked_part ::
  "FlushAnswers \<Rightarrow> BlobID \<Rightarrow> string \<Rightarrow> u64 \<Rightarrow> flush_event list \<times> fatal option" where
  "flush_locked_part sys blob_id filename offset =
     (if lock_acquired sys then
        (let create = \<not> file_exists sys in
         if open_ok sys then
           (if \<not> flock_ex_ok sys
            then ([LockedBlob blob_id, OpenedFile filename create],
                  Some (FailedLibraryCall ''flock''))
            else if \<not> flock_un_ok sys
            then ([LockedBlob blob_id, OpenedFile filename create, LockedFile,
                   PersistedBlob blob_id offset],
                  Some (FailedLibraryCall ''flock''))
            else if \<not> close_ok sys
            then ([LockedBlob blob_id, OpenedFile filename create, LockedFile,
                   PersistedBlob blob_id offset, UnlockedFile],
                  Some (FailedLibraryCall ''close''))
            else ([LockedBlob blob_id, OpenedFile filename create, LockedFile,
                   PersistedBlob blob_id offset, UnlockedFile, ClosedFile,
                   UnlockedBlob blob_id], None))
         else ([LockedBlob blob_id], Some (FailedLibraryCall ''open'')))
      else ([], None))"

definition FlushBlob ::
  "FlushEnv \<Rightarrow> FlushAnswers \<Rightarrow> cluster \<Rightarrow> BlobID \<Rightarrow> string \<Rightarrow> u64 \<Rightarrow> bool \<Rightarrow>
   flush_event list \<times> (fatal + cluster)" where
  "FlushBlob env sys cl blob_id filename offset async =
     (case flush_locked_part sys blob_id filename offset of
        (events, Some f) \<Rightarrow> (events, Inl f)
      | (events, None) \<Rightarrow>
          if async
          then (events @ [DecrementedFlushCount filename],
                Inr (DecrementFlushCount env cl filename))
          else (events, Inr cl))"

text \<open>
  \<open>LocalEnqueueFlushingTask\<close>: the result, the new counters and the events.
  \<open>Dispatched blob_id filename offset async\<close> is the \<open>pool->run\<close> of the bound
  \<open>FlushBlob\<close>, which a worker thread runs later.
\<close>

definition LocalEnqueueFlushingTask ::
  "FlushEnv \<Rightarrow> cluster \<Rightarrow> BlobID \<Rightarrow> string \<Rightarrow> u64 \<Rightarrow> bool \<times> cluster \<times> flush_event list" where
  "LocalEnqueueFlushingTask env cl blob_id filename offset =
     (if \<not> BlobIsInSwap env blob_id
      then (True, IncrementFlushCount env cl filename,
            [IncrementedFlushCount filename, Dispatched blob_id filename offset True])
      else (False, cl, []))"

text \<open>The counter of a vbucket, read on its authoritative node.\<close>

definition flush_count :: "FlushEnv \<Rightarrow> cluster \<Rightarrow> string \<Rightarrow> u32 option" where
  "flush_count env cl vbkt_name = cl (HashString env vbkt_name) vbkt_name"

section \<open>Serialization for the RPC layer\<close>

text \<open>
  A Thallium archive, as the sequence of values written to it: \<open>ar & x\<close> and
  \<open>ar.write(&x, 1)\<close> append \<open>x\<close> to an output archive, and on an input archive
  \<open>ar & x\<close> and \<open>ar.read(&x, 1)\<close> take the next value into \<open>x\<close>. The values keep
  their C++ type in the model; reading a value of another type, or from an archive that
  has run out, gives \<open>None\<close>. A template \<open>serialize(A &ar, T &x)\<close> is both directions:
  \<open>save_T\<close> with an output archive and \<open>load_T\<close> with an input archive.

  Only the types whose members are known are modelled: the ID unions (a 64-bit
  \<open>as_int\<close>), \<open>SwapBlob\<close> and \<open>BufferInfo\<close>, and the enumeration \<open>BoOperation\<close> through
  the \<open>int\<close> it is cast to. \<open>BoArgs\<close>, \<open>BoTask\<close>, \<open>ViolationInfo\<close> and
  \<open>PrefetchContext\<close> are declared outside these files, and which members they have
  beyond those that \<open>serialize\<close> writes is not known here.
\<close>

datatype wire = W_u64 u64 | W_u32 u32 | W_int "32 word" | W_f32 f32

fun read_u64 :: "wire list \<Rightarrow> (u64 \<times> wire list) option" where
  "read_u64 (W_u64 v # ar) = Some (v, ar)"
| "read_u64 _ = None"

fun read_u32 :: "wire list \<Rightarrow> (u32 \<times> wire list) option" where
  "read_u32 (W_u32 v # ar) = Some (v, ar)"
| "read_u32 _ = None"

fun read_int :: "wire list \<Rightarrow> (32 word \<times> wire list) option" where
  "read_int (W_int v # ar) = Some (v, ar)"
| "read_int _ = None"

fun read_f32 :: "wire list \<Rightarrow> (f32 \<times> wire list) option" where
  "read_f32 (W_f32 v # ar) = Some (v, ar)"
| "read_f32 _ = None"

text \<open>The ID unions: \<open>ar & id.as_int\<close>.\<close>

definition save_BufferID :: "BufferID \<Rightarrow> wire list" where
  "save_BufferID buffer_id = [W_u64 buffer_id]"

definition load_BufferID :: "wire list \<Rightarrow> (BufferID \<times> wire list) option" where
  "load_BufferID ar = read_u64 ar"

definition save_BucketID :: "BucketID \<Rightarrow> wire list" where
  "save_BucketID bucket_id = [W_u64 bucket_id]"

definition load_BucketID :: "wire list \<Rightarrow> (BucketID \<times> wire list) option" where
  "load_BucketID ar = read_u64 ar"

definition save_VBucketID :: "VBucketID \<Rightarrow> wire list" where
  "save_VBucketID vbucket_id = [W_u64 vbucket_id]"

definition load_VBucketID :: "wire list \<Rightarrow> (VBucketID \<times> wire list) option" where
  "load_VBucketID ar = read_u64 ar"

definition save_BlobID :: "BlobID \<Rightarrow> wire list" where
  "save_BlobID blob_id = [W_u64 blob_id]"

definition load_BlobID :: "wire list \<Rightarrow> (BlobID \<times> wire list) option" where
  "load_BlobID ar = read_u64 ar"

definition save_TargetID :: "TargetID \<Rightarrow> wire list" where
  "save_TargetID tid = [W_u64 tid]"

definition load_TargetID :: "wire list \<Rightarrow> (TargetID \<times> wire list) option" where
  "load_TargetID ar = read_u64 ar"

text \<open>
  Modelled from the spec: \<open>SwapBlob\<close> is declared outside these files; the spec gives it
  the four attributes that \<open>serialize\<close> writes: \<open>node_id\<close>, \<open>offset\<close>, \<open>size\<close>,
  \<open>bucket_id\<close>.
\<close>

record SwapBlob =
  swap_node_id :: u32
  swap_offset :: u64
  swap_size :: u64
  swap_bucket_id :: BucketID

definition save_SwapBlob :: "SwapBlob \<Rightarrow> wire list" where
  "save_SwapBlob swap_blob =
     [W_u32 (swap_node_id swap_blob)] @ [W_u64 (swap_offset swap_blob)] @
     [W_u64 (swap_size swap_blob)] @ save_BucketID (swap_bucket_id swap_blob)"

definition load_SwapBlob :: "wire list \<Rightarrow> (SwapBlob \<times> wire list) option" where
  "load_SwapBlob ar =
     (case read_u32 ar of None \<Rightarrow> None | Some (n, ar1) \<Rightarrow>
      case read_u64 ar1 of None \<Rightarrow> None | Some (off, ar2) \<Rightarrow>
      case read_u64 ar2 of None \<Rightarrow> None | Some (sz, ar3) \<Rightarrow>
      case load_BucketID ar3 of None \<Rightarrow> None | Some (bkt, ar4) \<Rightarrow>
        Some (\<lparr>swap_node_id = n, swap_offset = off, swap_size = sz, swap_bucket_id = bkt\<rparr>,
              ar4))"

definition save_BufferInfo :: "BufferInfo \<Rightarrow> wire list" where
  "save_BufferInfo info =
     save_BufferID (info_id info) @ [W_f32 (bandwidth_mbps info)] @ [W_u64 (info_size info)]"

definition load_BufferInfo :: "wire list \<Rightarrow> (BufferInfo \<times> wire list) option" where
  "load_BufferInfo ar =
     (case load_BufferID ar of None \<Rightarrow> None | Some (i, ar1) \<Rightarrow>
      case read_f32 ar1 of None \<Rightarrow> None | Some (bw, ar2) \<Rightarrow>
      case read_u64 ar2 of None \<Rightarrow> None | Some (sz, ar3) \<Rightarrow>
        Some (\<lparr>info_id = i, bandwidth_mbps = bw, info_size = sz\<rparr>, ar3))"

text \<open>
  \<open>save(A &ar, BoOperation &op)\<close> writes \<open>(int)op\<close> and \<open>load\<close> casts the \<open>int\<close> it
  reads back to \<open>BoOperation\<close>, whatever the \<open>int\<close> is. The enumeration is declared
  outside these files; a \<open>BoOperation\<close> is kept as the \<open>int\<close> it is cast to.
\<close>

type_synonym BoOperation = "32 word"

definition save_BoOperation :: "BoOperation \<Rightarrow> wire list" where
  "save_BoOperation op = (let val = op in [W_int val])"

definition load_BoOperation :: "wire list \<Rightarrow> (BoOperation \<times> wire list) option" where
  "load_BoOperation ar =
     (case read_int ar of None \<Rightarrow> None | Some (val, ar1) \<Rightarrow> Some (val, ar1))"

section \<open>Properties of the cost model\<close>

lemma access_loop_no_zero:
  "list_all (\<lambda>b. bandwidth_mbps b \<noteq> 0) bs \<Longrightarrow>
   access_loop bs r t =
     Inr (r + sum_list (map (\<lambda>b. BytesToMegabytes (info_size b) * (1 / bandwidth_mbps b)) bs),
          t + sum_list (map (\<lambda>b. BytesToMegabytes (info_size b)) bs))"
  by (induction bs arbitrary: r t) (simp_all add: fdiv_def Let_def algebra_simps)

lemma access_loop_zero:
  "\<not> list_all (\<lambda>b. bandwidth_mbps b \<noteq> 0) bs \<Longrightarrow> access_loop bs r t = Inl DivisionByZero"
  by (induction bs arbitrary: r t) (auto simp add: fdiv_def Let_def)

text \<open>What the code computes when no divisor is 0.\<close>

lemma ComputeBlobAccessScore_value:
  assumes "list_all (\<lambda>b. bandwidth_mbps b \<noteq> 0) bs"
    and "total_mb = sum_list (map (\<lambda>b. BytesToMegabytes (info_size b)) bs)"
    and "raw_score = sum_list (map (\<lambda>b. BytesToMegabytes (info_size b) * (1 / bandwidth_mbps b)) bs)"
    and "total_mb * max_device_bw_mbps pool - total_mb * min_device_bw_mbps pool \<noteq> 0"
  shows "ComputeBlobAccessScore pool bs
    = Inr ((raw_score - total_mb * min_device_bw_mbps pool)
           / (total_mb * max_device_bw_mbps pool - total_mb * min_device_bw_mbps pool))"
  using assms
  by (simp add: ComputeBlobAccessScore_def access_loop_no_zero NormalizeAccessScore_def
      fdiv_def Let_def)

text \<open>The two cases with \<open>range = 0\<close>, for any pool and any buffers.\<close>

lemma ComputeBlobAccessScore_empty: "ComputeBlobAccessScore pool [] = Inl DivisionByZero"
  by (simp add: ComputeBlobAccessScore_def NormalizeAccessScore_def fdiv_def)

lemma ComputeBlobAccessScore_single_tier:
  assumes "min_device_bw_mbps pool = max_device_bw_mbps pool"
  shows "ComputeBlobAccessScore pool bs = Inl DivisionByZero"
proof (cases "list_all (\<lambda>b. bandwidth_mbps b \<noteq> 0) bs")
  case True
  with assms show ?thesis
    by (simp add: ComputeBlobAccessScore_def access_loop_no_zero NormalizeAccessScore_def
        fdiv_def Let_def)
next
  case False
  then show ?thesis
    by (simp add: ComputeBlobAccessScore_def access_loop_zero)
qed

lemma sum_list_map_mset_cong:
  fixes f :: "'a \<Rightarrow> rat"
  assumes "mset xs = mset ys"
  shows "sum_list (map f xs) = sum_list (map f ys)"
proof -
  have "sum_list (map f xs) = sum_mset (image_mset f (mset xs))"
    by (metis mset_map sum_mset_sum_list)
  also have "\<dots> = sum_mset (image_mset f (mset ys))"
    using assms by simp
  also have "\<dots> = sum_list (map f ys)"
    by (metis mset_map sum_mset_sum_list)
  finally show ?thesis .
qed

lemma access_loop_mset_cong:
  assumes "mset xs = mset ys"
  shows "access_loop xs r t = access_loop ys r t"
proof (cases "list_all (\<lambda>b. bandwidth_mbps b \<noteq> 0) xs")
  case True
  moreover from assms have "set xs = set ys"
    by (rule mset_eq_setD)
  ultimately have "list_all (\<lambda>b. bandwidth_mbps b \<noteq> 0) ys"
    by (simp add: list_all_iff)
  with True show ?thesis
    using sum_list_map_mset_cong [OF assms,
        of "\<lambda>b. BytesToMegabytes (info_size b) * (1 / bandwidth_mbps b)"]
      sum_list_map_mset_cong [OF assms, of "\<lambda>b. BytesToMegabytes (info_size b)"]
    by (simp add: access_loop_no_zero)
next
  case False
  moreover from assms have "set xs = set ys"
    by (rule mset_eq_setD)
  ultimately have "\<not> list_all (\<lambda>b. bandwidth_mbps b \<noteq> 0) ys"
    by (simp add: list_all_iff)
  with False show ?thesis
    by (simp add: access_loop_zero)
qed

text \<open>
  C1. With every buffer on the fastest device the score should be 0, with every buffer
  on the slowest device 1, and always within [0,1]. The code multiplies the total size
  by the bandwidths where the seconds need a division: for a pool with bandwidths 100
  and 6000 MB/s, one 1 MiB buffer at 6000 MB/s scores -599999/35400000, and the same
  buffer at 100 MB/s scores -9999/590000.
\<close>

theorem ComputeBlobAccessScore_outside_unit_interval:
  "ComputeBlobAccessScore \<lparr>min_device_bw_mbps = 100, max_device_bw_mbps = 6000\<rparr>
     [\<lparr>info_id = 1, bandwidth_mbps = 6000, info_size = 1048576\<rparr>]
     = Inr (- 599999 / 35400000) \<and>
   ComputeBlobAccessScore \<lparr>min_device_bw_mbps = 100, max_device_bw_mbps = 6000\<rparr>
     [\<lparr>info_id = 1, bandwidth_mbps = 100, info_size = 1048576\<rparr>]
     = Inr (- 9999 / 590000)"
  by (simp add: ComputeBlobAccessScore_def NormalizeAccessScore_def BytesToMegabytes_def
      fdiv_def)

text \<open>
  C3. The score should be 0 when the pool has one tier (equal minimum and maximum
  bandwidth) and when the buffer list is empty. \<open>NormalizeAccessScore\<close> has no guard:
  in both cases \<open>range\<close> is 0 and the division is a division by zero.
\<close>

theorem ComputeBlobAccessScore_zero_range_divides_by_zero:
  "ComputeBlobAccessScore \<lparr>min_device_bw_mbps = 100, max_device_bw_mbps = 6000\<rparr> []
     = Inl DivisionByZero \<and>
   ComputeBlobAccessScore \<lparr>min_device_bw_mbps = 100, max_device_bw_mbps = 100\<rparr>
     [\<lparr>info_id = 1, bandwidth_mbps = 100, info_size = 1048576\<rparr>]
     = Inl DivisionByZero"
  by (simp add: ComputeBlobAccessScore_def NormalizeAccessScore_def BytesToMegabytes_def
      fdiv_def)

text \<open>
  C10. Over exact arithmetic the score depends only on the multiset of the buffers:
  two lists that are permutations of each other get the same result (the same score,
  or the same error when a bandwidth is 0 or the range is 0).
\<close>

theorem ComputeBlobAccessScore_permutation:
  "mset xs = mset ys \<Longrightarrow> ComputeBlobAccessScore pool xs = ComputeBlobAccessScore pool ys"
  by (simp add: ComputeBlobAccessScore_def access_loop_mset_cong [of xs ys])

theorem ComputeBlobAccessScore_permutation_witness:
  "mset [\<lparr>info_id = 1, bandwidth_mbps = 6000, info_size = 1048576\<rparr>,
         \<lparr>info_id = 2, bandwidth_mbps = 100, info_size = 2097152\<rparr>]
   = mset [\<lparr>info_id = 2, bandwidth_mbps = 100, info_size = 2097152\<rparr>,
           \<lparr>info_id = 1, bandwidth_mbps = 6000, info_size = 1048576\<rparr>] \<and>
   ComputeBlobAccessScore \<lparr>min_device_bw_mbps = 100, max_device_bw_mbps = 6000\<rparr>
     [\<lparr>info_id = 1, bandwidth_mbps = 6000, info_size = 1048576\<rparr>,
      \<lparr>info_id = 2, bandwidth_mbps = 100, info_size = 2097152\<rparr>]
   = ComputeBlobAccessScore \<lparr>min_device_bw_mbps = 100, max_device_bw_mbps = 6000\<rparr>
     [\<lparr>info_id = 2, bandwidth_mbps = 100, info_size = 2097152\<rparr>,
      \<lparr>info_id = 1, bandwidth_mbps = 6000, info_size = 1048576\<rparr>]"
proof -
  have h: "mset [\<lparr>info_id = 1, bandwidth_mbps = 6000, info_size = 1048576\<rparr>,
         \<lparr>info_id = 2, bandwidth_mbps = 100, info_size = (2097152::u64)\<rparr>]
   = mset [\<lparr>info_id = 2, bandwidth_mbps = 100, info_size = 2097152\<rparr>,
           \<lparr>info_id = (1::u64), bandwidth_mbps = (6000::rat), info_size = 1048576\<rparr>]"
    by (simp add: add_mset_commute)
  from h ComputeBlobAccessScore_permutation [OF h] show ?thesis
    by blast
qed

section \<open>Properties of the scores with infinities and NaN\<close>

lemma fx_add_not_finite: "\<not> is_finite x \<Longrightarrow> \<not> is_finite (fx_add x y)"
  by (cases x; cases y) simp_all

lemma fx_add_not_finite2: "\<not> is_finite y \<Longrightarrow> \<not> is_finite (fx_add x y)"
  by (cases x; cases y) simp_all

lemma fx_sub_not_finite: "\<not> is_finite x \<Longrightarrow> \<not> is_finite (fx_sub x (Finite b))"
  by (cases x) (simp_all add: fx_sub_def)

lemma fx_div_not_finite: "\<not> is_finite x \<Longrightarrow> \<not> is_finite (fx_div x (Finite b))"
  by (cases x) (simp_all add: fx_inf_def)

lemma fx_div_zero_not_finite: "\<not> is_finite (fx_div x (Finite 0))"
  by (cases x) (simp_all add: fx_inf_def)

lemma access_loop_x_total_finite:
  "\<exists>t'. snd (access_loop_x bs r (Finite t)) = Finite t'"
  by (induction bs arbitrary: r t) (simp_all add: Let_def)

lemma access_loop_x_raw_not_finite:
  "\<not> is_finite r \<Longrightarrow> \<not> is_finite (fst (access_loop_x bs r t))"
  by (induction bs arbitrary: r t) (simp_all add: Let_def fx_add_not_finite)

lemma access_loop_x_no_zero:
  "list_all (\<lambda>b. bandwidth_mbps b \<noteq> 0) bs \<Longrightarrow>
   access_loop_x bs (Finite r) (Finite t) =
     (Finite (r + sum_list (map (\<lambda>b. BytesToMegabytes (info_size b) * (1 / bandwidth_mbps b)) bs)),
      Finite (t + sum_list (map (\<lambda>b. BytesToMegabytes (info_size b)) bs)))"
  by (induction bs arbitrary: r t) (simp_all add: Let_def algebra_simps)

lemma access_loop_x_zero:
  "\<not> list_all (\<lambda>b. bandwidth_mbps b \<noteq> 0) bs \<Longrightarrow>
   \<not> is_finite (fst (access_loop_x bs (Finite r) (Finite t)))"
proof (induction bs arbitrary: r t)
  case Nil
  then show ?case by simp
next
  case (Cons b bs)
  show ?case
  proof (cases "bandwidth_mbps b = 0")
    case True
    have "\<not> is_finite (fx_add (Finite r)
        (fx_mul (Finite (BytesToMegabytes (info_size b))) (fx_div (Finite 1) (Finite 0))))"
      by (simp add: fx_inf_def)
    then show ?thesis
      using True by (simp add: Let_def access_loop_x_raw_not_finite)
  next
    case False
    with Cons.prems have "\<not> list_all (\<lambda>b. bandwidth_mbps b \<noteq> 0) bs"
      by simp
    from Cons.IH [OF this] False show ?thesis
      by (simp add: Let_def)
  qed
qed

lemma fdiv_finite: "fdiv a b = Inr v \<Longrightarrow> fx_div (Finite a) (Finite b) = Finite v"
  by (auto simp add: fdiv_def split: if_splits)

lemma fdiv_not_finite: "fdiv a b = Inl e \<Longrightarrow> \<not> is_finite (fx_div (Finite a) (Finite b))"
  by (auto simp add: fdiv_def fx_inf_def split: if_splits)

lemma NormalizeAccessScore_as_fdiv:
  "NormalizeAccessScore pool r t
     = fdiv (r - t * min_device_bw_mbps pool)
         (t * max_device_bw_mbps pool - t * min_device_bw_mbps pool)"
  by (simp add: NormalizeAccessScore_def Let_def)

lemma NormalizeAccessScore_x_as_fx_div:
  "NormalizeAccessScore_x pool (Finite r) (Finite t)
     = fx_div (Finite (r - t * min_device_bw_mbps pool))
         (Finite (t * max_device_bw_mbps pool - t * min_device_bw_mbps pool))"
  by (simp add: NormalizeAccessScore_x_def fx_sub_def Let_def)

text \<open>
  The two models of \<open>ComputeBlobAccessScore\<close> agree: the exact one returns a number
  when the score is finite, and its error when the score is an infinity or NaN.
\<close>

lemma ComputeBlobAccessScore_x_finite:
  assumes "ComputeBlobAccessScore pool bs = Inr v"
  shows "ComputeBlobAccessScore_x pool bs = Finite v"
proof -
  have nz: "list_all (\<lambda>b. bandwidth_mbps b \<noteq> 0) bs"
  proof (rule ccontr)
    assume "\<not> list_all (\<lambda>b. bandwidth_mbps b \<noteq> 0) bs"
    then have "ComputeBlobAccessScore pool bs = Inl DivisionByZero"
      by (simp add: ComputeBlobAccessScore_def access_loop_zero)
    with assms show False by simp
  qed
  define r where "r = sum_list (map (\<lambda>b. BytesToMegabytes (info_size b) * (1 / bandwidth_mbps b)) bs)"
  define t where "t = sum_list (map (\<lambda>b. BytesToMegabytes (info_size b)) bs)"
  have e: "access_loop bs 0 0 = Inr (r, t)"
    by (simp add: access_loop_no_zero [OF nz] r_def t_def)
  have x: "access_loop_x bs (Finite 0) (Finite 0) = (Finite r, Finite t)"
    by (simp add: access_loop_x_no_zero [OF nz] r_def t_def)
  from assms have "fdiv (r - t * min_device_bw_mbps pool)
         (t * max_device_bw_mbps pool - t * min_device_bw_mbps pool) = Inr v"
    by (simp add: ComputeBlobAccessScore_def e NormalizeAccessScore_as_fdiv)
  then have "fx_div (Finite (r - t * min_device_bw_mbps pool))
         (Finite (t * max_device_bw_mbps pool - t * min_device_bw_mbps pool)) = Finite v"
    by (rule fdiv_finite)
  then show ?thesis
    by (simp add: ComputeBlobAccessScore_x_def x NormalizeAccessScore_x_as_fx_div)
qed

lemma ComputeBlobAccessScore_x_not_finite:
  assumes "ComputeBlobAccessScore pool bs = Inl e"
  shows "\<not> is_finite (ComputeBlobAccessScore_x pool bs)"
proof (cases "list_all (\<lambda>b. bandwidth_mbps b \<noteq> 0) bs")
  case True
  define r where "r = sum_list (map (\<lambda>b. BytesToMegabytes (info_size b) * (1 / bandwidth_mbps b)) bs)"
  define t where "t = sum_list (map (\<lambda>b. BytesToMegabytes (info_size b)) bs)"
  have e: "access_loop bs 0 0 = Inr (r, t)"
    by (simp add: access_loop_no_zero [OF True] r_def t_def)
  have x: "access_loop_x bs (Finite 0) (Finite 0) = (Finite r, Finite t)"
    by (simp add: access_loop_x_no_zero [OF True] r_def t_def)
  from assms have "fdiv (r - t * min_device_bw_mbps pool)
         (t * max_device_bw_mbps pool - t * min_device_bw_mbps pool) = Inl e"
    by (simp add: ComputeBlobAccessScore_def e NormalizeAccessScore_as_fdiv)
  then have "\<not> is_finite (fx_div (Finite (r - t * min_device_bw_mbps pool))
         (Finite (t * max_device_bw_mbps pool - t * min_device_bw_mbps pool)))"
    by (rule fdiv_not_finite)
  then show ?thesis
    by (simp add: ComputeBlobAccessScore_x_def x NormalizeAccessScore_x_as_fx_div)
next
  case False
  obtain raw tot where l: "access_loop_x bs (Finite 0) (Finite 0) = (raw, tot)"
    by (cases "access_loop_x bs (Finite 0) (Finite 0)") auto
  from access_loop_x_zero [OF False, of 0 0] l have r: "\<not> is_finite raw"
    by simp
  from access_loop_x_total_finite [of bs "Finite 0" 0] l obtain t where t: "tot = Finite t"
    by auto
  have "\<not> is_finite (fx_div (fx_sub raw (Finite (t * min_device_bw_mbps pool)))
      (Finite (t * max_device_bw_mbps pool - t * min_device_bw_mbps pool)))"
    by (intro fx_div_not_finite fx_sub_not_finite r)
  then show ?thesis
    by (simp add: ComputeBlobAccessScore_x_def l t NormalizeAccessScore_x_def fx_sub_def Let_def)
qed

section \<open>Properties of the sort functions\<close>

lemma mset_sort_insert: "mset (sort_insert cmp x xs) = add_mset x (mset xs)"
  by (induction xs) simp_all

lemma mset_std_sort: "mset (std_sort cmp xs) = mset xs"
  by (induction xs) (simp_all add: mset_sort_insert)

lemma set_sort_insert: "set (sort_insert cmp x xs) = insert x (set xs)"
  by (induction xs) auto

lemma sort_insert_ascending:
  fixes key :: "'a \<Rightarrow> rat"
  assumes "sorted_wrt (\<lambda>a b. key a \<le> key b) xs"
  shows "sorted_wrt (\<lambda>a b. key a \<le> key b) (sort_insert (\<lambda>l r. key l < key r) x xs)"
  using assms by (induction xs) (auto simp add: set_sort_insert)

lemma sort_insert_descending:
  fixes key :: "'a \<Rightarrow> rat"
  assumes "sorted_wrt (\<lambda>a b. key b \<le> key a) xs"
  shows "sorted_wrt (\<lambda>a b. key b \<le> key a) (sort_insert (\<lambda>l r. key r < key l) x xs)"
  using assms by (induction xs) (auto simp add: set_sort_insert)

lemma std_sort_ascending:
  fixes key :: "'a \<Rightarrow> rat"
  shows "sorted_wrt (\<lambda>a b. key a \<le> key b) (std_sort (\<lambda>l r. key l < key r) xs)"
  by (induction xs) (simp_all add: sort_insert_ascending)

lemma std_sort_descending:
  fixes key :: "'a \<Rightarrow> rat"
  shows "sorted_wrt (\<lambda>a b. key b \<le> key a) (std_sort (\<lambda>l r. key r < key l) xs)"
  by (induction xs) (simp_all add: sort_insert_descending)

text \<open>
  What \<open>SortTargetInfo\<close> does for every input: with \<open>increasing\<close> the bandwidths
  come out in non-increasing order (fastest target first), without it in non-decreasing
  order (slowest target first); both results are permutations of the input.
\<close>

lemma SortTargetInfo_order:
  "sorted_wrt (\<lambda>a b. b \<le> a) (map target_bandwidth_mbps (SortTargetInfo v True)) \<and>
   sorted_wrt (\<lambda>a b. a \<le> b) (map target_bandwidth_mbps (SortTargetInfo v False)) \<and>
   mset (SortTargetInfo v True) = mset v \<and> mset (SortTargetInfo v False) = mset v"
  using std_sort_descending [of target_bandwidth_mbps v]
    std_sort_ascending [of target_bandwidth_mbps v]
  by (simp add: SortTargetInfo_def increasing_target_info_comparator_def [abs_def]
      decreasing_target_info_comparator_def [abs_def] sorted_wrt_map mset_std_sort)

text \<open>
  C2. The candidate targets should come fastest first when \<open>increasing\<close> is false
  and slowest first when it is true. The code has the two comparators the other way
  round: for targets of 100 and 6000 MB/s, \<open>SortTargetInfo(v, true)\<close> puts the
  6000 MB/s target first and \<open>SortTargetInfo(v, false)\<close> the 100 MB/s target.
\<close>

theorem SortTargetInfo_directions_swapped:
  "SortTargetInfo
     [\<lparr>target_id = 1, target_bandwidth_mbps = 100, target_capacity = 0\<rparr>,
      \<lparr>target_id = 2, target_bandwidth_mbps = 6000, target_capacity = 0\<rparr>] True
   = [\<lparr>target_id = 2, target_bandwidth_mbps = 6000, target_capacity = 0\<rparr>,
      \<lparr>target_id = 1, target_bandwidth_mbps = 100, target_capacity = 0\<rparr>] \<and>
   SortTargetInfo
     [\<lparr>target_id = 2, target_bandwidth_mbps = 6000, target_capacity = 0\<rparr>,
      \<lparr>target_id = 1, target_bandwidth_mbps = 100, target_capacity = 0\<rparr>] False
   = [\<lparr>target_id = 1, target_bandwidth_mbps = 100, target_capacity = 0\<rparr>,
      \<lparr>target_id = 2, target_bandwidth_mbps = 6000, target_capacity = 0\<rparr>]"
  by (simp add: SortTargetInfo_def increasing_target_info_comparator_def
      decreasing_target_info_comparator_def)

section \<open>Properties of the move executor\<close>

lemma i64_wrap_id: "0 \<le> v \<Longrightarrow> v < 2 ^ 63 \<Longrightarrow> i64_wrap v = v"
  by (simp add: i64_wrap_def)

lemma size_t_of_i64_id: "0 \<le> v \<Longrightarrow> v < 2 ^ 63 \<Longrightarrow> size_t_of_i64 v = nat v"
  by (simp add: size_t_of_i64_def)

lemma nat_min_int: "nat (min (int c) (int n)) = min c n"
  by (simp add: min_def)

text \<open>One iteration of the loop on a resolved destination, without wrap-around.\<close>

lemma move_loop_step:
  assumes h: "GetHeaderByBufferId ctx dest = Some hdr"
    and r: "0 \<le> r" and len: "int off + r = int (length blob)" and small: "int (length blob) < 2 ^ 63"
  defines "p \<equiv> min (unat (capacity hdr)) (nat r)"
  shows "move_loop ctx blob (dest # rest) off r =
     (case move_loop ctx blob rest (off + p) (r - int p) of
        (events, off', r') \<Rightarrow> (WriteBuffer dest (take p (drop off blob)) off # events, off', r'))"
proof -
  have rs: "r < 2 ^ 63" using r len small by linarith
  have m0: "0 \<le> min (uint (capacity hdr)) r" using r by simp
  have m1: "min (uint (capacity hdr)) r < 2 ^ 63" using rs by simp
  obtain n where n: "r = int n"
    using r by (rule nonneg_int_cases)
  have "uint (capacity hdr) = int (unat (capacity hdr))"
    by simp
  then have "nat (min (uint (capacity hdr)) r) = nat (min (int (unat (capacity hdr))) (int n))"
    by (simp only: n)
  also have "\<dots> = min (unat (capacity hdr)) n"
    by (rule nat_min_int)
  finally have "nat (min (uint (capacity hdr)) r) = min (unat (capacity hdr)) n" .
  with size_t_of_i64_id [OF m0 m1] have ps: "size_t_of_i64 (min (uint (capacity hdr)) r) = p"
    by (simp add: p_def n)
  have pr: "int p \<le> r" using r by (simp add: p_def)
  have w: "i64_wrap (r - int p) = r - int p"
    using pr rs by (intro i64_wrap_id) simp_all
  have "int (off + p) < 2 ^ 63" using pr len small by linarith
  moreover have "(2::int) ^ 63 \<le> 2 ^ 64" by simp
  ultimately have "int (off + p) < 2 ^ 64" by linarith
  then have "off + p < 2 ^ 64" by (metis of_nat_less_numeral_power_cancel_iff)
  then have o: "(off + p) mod 2 ^ 64 = off + p" by simp
  from o show ?thesis
    by (simp add: h ps w Let_def)
qed

lemma move_loop_skip:
  assumes "GetHeaderByBufferId ctx dest = None"
  shows "move_loop ctx blob (dest # rest) off r =
     (case move_loop ctx blob rest off r of
        (events, off', r') \<Rightarrow> (WarnBufferNotFound dest # events, off', r'))"
  using assms by simp

lemma portion_length:
  assumes "0 \<le> r" and "int off + r = int (length blob)"
  shows "length (take (min c (nat r)) (drop off blob)) = min c (nat r)"
  using assms by simp

text \<open>The offsets handed to the writes, for any list of destinations.\<close>

lemma move_loop_runs_from:
  assumes "0 \<le> r" and "int off + r = int (length blob)" and "int (length blob) < 2 ^ 63"
  shows "runs_from off (writes_of (fst (move_loop ctx blob dests off r)))"
  using assms
proof (induction dests arbitrary: off r)
  case Nil
  then show ?case by simp
next
  case (Cons dest rest)
  show ?case
  proof (cases "GetHeaderByBufferId ctx dest")
    case None
    have "runs_from off (writes_of (fst (move_loop ctx blob rest off r)))"
      using Cons.prems by (rule Cons.IH)
    then show ?thesis
      by (simp add: move_loop_skip [OF None] case_prod_beta del: move_loop.simps)
  next
    case (Some hdr)
    define p where "p = min (unat (capacity hdr)) (nat r)"
    have a: "0 \<le> r - int p" and b: "int (off + p) + (r - int p) = int (length blob)"
      using Cons.prems by (simp_all add: p_def)
    have "runs_from (off + p) (writes_of (fst (move_loop ctx blob rest (off + p) (r - int p))))"
      using a b Cons.prems(3) by (rule Cons.IH)
    moreover have "length (take p (drop off blob)) = p"
      unfolding p_def using Cons.prems(1,2) by (rule portion_length)
    ultimately show ?thesis
      by (simp add: move_loop_step [OF Some Cons.prems] case_prod_beta del: move_loop.simps
          flip: p_def)
  qed
qed

lemma take_portions:
  assumes "off + p \<le> off'"
  shows "take p (drop off blob) @ take (off' - (off + p)) (drop (off + p) blob)
    = take (off' - off) (drop off blob)"
proof -
  have "take (p + (off' - (off + p))) (drop off blob)
    = take p (drop off blob) @ take (off' - (off + p)) (drop p (drop off blob))"
    by (rule take_add)
  moreover have "p + (off' - (off + p)) = off' - off"
    using assms by simp
  ultimately show ?thesis
    by (simp add: add.commute)
qed

lemma remaining_after_portion:
  fixes c s :: nat
  assumes "0 \<le> r"
  shows "max 0 (r - int (min c (nat r)) - int s) = max 0 (r - int (c + s))"
proof (cases "c \<le> nat r")
  case True
  then show ?thesis by (simp add: min_def)
next
  case False
  with assms have "r < int c" by linarith
  with assms False show ?thesis by (simp add: min_def max_def)
qed

text \<open>The loop when every destination resolves.\<close>

lemma move_loop_resolved:
  assumes "list_all (\<lambda>d. GetHeaderByBufferId ctx d \<noteq> None) dests"
    and "0 \<le> r" and "int off + r = int (length blob)" and "int (length blob) < 2 ^ 63"
  shows "snd (snd (move_loop ctx blob dests off r))
           = max 0 (r - int (sum_list (map (capacity_of ctx) dests))) \<and>
         int (fst (snd (move_loop ctx blob dests off r))) + snd (snd (move_loop ctx blob dests off r))
           = int (length blob) \<and>
         off \<le> fst (snd (move_loop ctx blob dests off r)) \<and>
         map fst (writes_of (fst (move_loop ctx blob dests off r))) = dests \<and>
         list_all (\<lambda>w. length (fst (snd w)) \<le> capacity_of ctx (fst w))
           (writes_of (fst (move_loop ctx blob dests off r))) \<and>
         concat (map (\<lambda>w. fst (snd w)) (writes_of (fst (move_loop ctx blob dests off r))))
           = take (fst (snd (move_loop ctx blob dests off r)) - off) (drop off blob)"
  using assms
proof (induction dests arbitrary: off r)
  case Nil
  then show ?case by simp
next
  case (Cons dest rest)
  from Cons.prems(1) obtain hdr where hdr: "GetHeaderByBufferId ctx dest = Some hdr"
    by auto
  define p where "p = min (unat (capacity hdr)) (nat r)"
  define R where "R = move_loop ctx blob rest (off + p) (r - int p)"
  have c: "capacity_of ctx dest = unat (capacity hdr)"
    by (simp add: capacity_of_def hdr)
  have a: "0 \<le> r - int p" and b: "int (off + p) + (r - int p) = int (length blob)"
    using Cons.prems by (simp_all add: p_def)
  from Cons.prems(1) have "list_all (\<lambda>d. GetHeaderByBufferId ctx d \<noteq> None) rest"
    by simp
  from Cons.IH [OF this a b Cons.prems(4)]
  have ih1: "snd (snd R) = max 0 (r - int p - int (sum_list (map (capacity_of ctx) rest)))"
    and ih2: "int (fst (snd R)) + snd (snd R) = int (length blob)"
    and ih3: "off + p \<le> fst (snd R)"
    and ih4: "map fst (writes_of (fst R)) = rest"
    and ih5: "list_all (\<lambda>w. length (fst (snd w)) \<le> capacity_of ctx (fst w)) (writes_of (fst R))"
    and ih6: "concat (map (\<lambda>w. fst (snd w)) (writes_of (fst R)))
           = take (fst (snd R) - (off + p)) (drop (off + p) blob)"
    by (simp_all add: R_def)
  have step: "move_loop ctx blob (dest # rest) off r
    = (WriteBuffer dest (take p (drop off blob)) off # fst R, fst (snd R), snd (snd R))"
    by (simp add: move_loop_step [OF hdr Cons.prems(2-4)] case_prod_beta R_def
        del: move_loop.simps flip: p_def)
  have g1: "max 0 (r - int p - int (sum_list (map (capacity_of ctx) rest)))
    = max 0 (r - int (sum_list (map (capacity_of ctx) (dest # rest))))"
    using remaining_after_portion [OF Cons.prems(2), of "unat (capacity hdr)"]
    by (simp only: c p_def list.map sum_list.Cons)
  have g5: "length (take p (drop off blob)) \<le> capacity_of ctx dest"
    by (simp add: c p_def)
  have g6: "take p (drop off blob) @ take (fst (snd R) - (off + p)) (drop (off + p) blob)
    = take (fst (snd R) - off) (drop off blob)"
    using ih3 by (rule take_portions)
  show ?case
    unfolding step using ih1 ih2 ih3 ih4 ih5 ih6 g1 g5 g6 by simp
qed

lemma writes_of_append: "writes_of (xs @ ys) = writes_of xs @ writes_of ys"
  by (induction xs rule: writes_of.induct) simp_all

lemma blob_length: "length (LocalReadBufferById ctx src n) = n"
  by (simp add: LocalReadBufferById_def)

lemma used_small: "int (unat (w :: u32)) < 2 ^ 63"
proof -
  have "uint w < 2 ^ 32"
    using uint_bounded [of w] by simp
  moreover have "(2::int) ^ 32 \<le> 2 ^ 63"
    by simp
  ultimately have "uint w < 2 ^ 63"
    by linarith
  then show ?thesis
    by simp
qed

lemma BoMove_locked:
  assumes "LocalLockBlob ctx blob_id" and "GetHeaderByBufferId ctx src = Some src_header"
  shows "writes_of (fst (BoMove ctx src destinations blob_id))
           = writes_of (fst (move_loop ctx (LocalReadBufferById ctx src (unat (used src_header)))
               destinations 0 (int (unat (used src_header)))))"
    and "snd (BoMove ctx src destinations blob_id)
           = (if snd (snd (move_loop ctx (LocalReadBufferById ctx src (unat (used src_header)))
               destinations 0 (int (unat (used src_header))))) = 0
              then MoveReturned else AssertionFailed)"
proof -
  have "int (unat (used src_header)) < 2 ^ 63"
    by (rule used_small)
  then have w: "i64_wrap (int (unat (used src_header))) = int (unat (used src_header))"
    by (intro i64_wrap_id) simp_all
  show "writes_of (fst (BoMove ctx src destinations blob_id))
           = writes_of (fst (move_loop ctx (LocalReadBufferById ctx src (unat (used src_header)))
               destinations 0 (int (unat (used src_header)))))"
    using assms w
    by (simp add: BoMove_def Let_def case_prod_beta writes_of_append blob_length)
  show "snd (BoMove ctx src destinations blob_id)
           = (if snd (snd (move_loop ctx (LocalReadBufferById ctx src (unat (used src_header)))
               destinations 0 (int (unat (used src_header))))) = 0
              then MoveReturned else AssertionFailed)"
    using assms w
    by (simp add: BoMove_def Let_def case_prod_beta blob_length)
qed

text \<open>
  C4. When the blob lock is acquired, the source header and every destination header
  resolve, and the destinations' capacities add up to at least \<open>used(src)\<close>:
  \<open>remaining_src_size\<close> ends at 0 (the assertion passes and \<open>BoMove\<close> returns),
  there is one write per destination, in the order of \<open>destinations\<close>, each of at
  most the destination's capacity, and the blob portions handed to the writes,
  concatenated in that order, are the \<open>used(src)\<close> bytes read from the source.
\<close>

theorem BoMove_fills_destinations:
  assumes "LocalLockBlob ctx blob_id"
    and "GetHeaderByBufferId ctx src = Some src_header"
    and "list_all (\<lambda>d. GetHeaderByBufferId ctx d \<noteq> None) destinations"
    and "unat (used src_header) \<le> sum_list (map (capacity_of ctx) destinations)"
  shows "snd (BoMove ctx src destinations blob_id) = MoveReturned \<and>
         map fst (writes_of (fst (BoMove ctx src destinations blob_id))) = destinations \<and>
         list_all (\<lambda>w. length (fst (snd w)) \<le> capacity_of ctx (fst w))
           (writes_of (fst (BoMove ctx src destinations blob_id))) \<and>
         concat (map (\<lambda>w. fst (snd w)) (writes_of (fst (BoMove ctx src destinations blob_id))))
           = LocalReadBufferById ctx src (unat (used src_header)) \<and>
         length (LocalReadBufferById ctx src (unat (used src_header))) = unat (used src_header)"
proof -
  define blob where "blob = LocalReadBufferById ctx src (unat (used src_header))"
  define R where "R = move_loop ctx blob destinations 0 (int (unat (used src_header)))"
  have len: "length blob = unat (used src_header)"
    by (simp add: blob_def blob_length)
  have small: "int (length blob) < 2 ^ 63"
    unfolding len by (rule used_small)
  have "(0::int) \<le> int (length blob)" and "int 0 + int (length blob) = int (length blob)"
    by simp_all
  from move_loop_resolved [OF assms(3) this small]
  have r1: "snd (snd R) = max 0 (int (length blob) - int (sum_list (map (capacity_of ctx) destinations)))"
    and r2: "int (fst (snd R)) + snd (snd R) = int (length blob)"
    and r4: "map fst (writes_of (fst R)) = destinations"
    and r5: "list_all (\<lambda>w. length (fst (snd w)) \<le> capacity_of ctx (fst w)) (writes_of (fst R))"
    and r6: "concat (map (\<lambda>w. fst (snd w)) (writes_of (fst R))) = take (fst (snd R) - 0) (drop 0 blob)"
    unfolding R_def len [symmetric] by blast+
  from assms(4) have "int (length blob) \<le> int (sum_list (map (capacity_of ctx) destinations))"
    unfolding len by (rule iffD2 [OF of_nat_le_iff])
  with r1 have zero: "snd (snd R) = 0"
    by linarith
  with r2 have "fst (snd R) = length blob"
    by simp
  with r6 have all: "concat (map (\<lambda>w. fst (snd w)) (writes_of (fst R))) = blob"
    by simp
  have w: "writes_of (fst (BoMove ctx src destinations blob_id)) = writes_of (fst R)"
    and o: "snd (BoMove ctx src destinations blob_id)
           = (if snd (snd R) = 0 then MoveReturned else AssertionFailed)"
    unfolding R_def blob_def by (rule BoMove_locked [OF assms(1,2)])+
  show ?thesis
    unfolding w o using zero r4 r5 all len by (simp add: blob_def)
qed

theorem BoMove_fills_destinations_witness:
  "LocalLockBlob 
     \<lparr>LocalLockBlob = (\<lambda>_. True),
       GetHeaderByBufferId = (\<lambda>b. if b = 1 then Some \<lparr>capacity = 8, used = 5\<rparr>
          else if b = 2 then Some \<lparr>capacity = 3, used = 0\<rparr>
          else if b = 3 then Some \<lparr>capacity = 4, used = 0\<rparr> else None),
       buffer_bytes = (\<lambda>b. if b = 1 then [10, 11, 12, 13, 14, 15, 16] else [])\<rparr> 7 \<and>
   BoMove 
     \<lparr>LocalLockBlob = (\<lambda>_. True),
       GetHeaderByBufferId = (\<lambda>b. if b = 1 then Some \<lparr>capacity = 8, used = 5\<rparr>
          else if b = 2 then Some \<lparr>capacity = 3, used = 0\<rparr>
          else if b = 3 then Some \<lparr>capacity = 4, used = 0\<rparr> else None),
       buffer_bytes = (\<lambda>b. if b = 1 then [10, 11, 12, 13, 14, 15, 16] else [])\<rparr> 1 [2, 3] 7
     = ([WriteBuffer 2 [10, 11, 12] 0, WriteBuffer 3 [13, 14] 3, UnlockBlob 7], MoveReturned) \<and>
   concat (map (\<lambda>w. fst (snd w)) (writes_of (fst (BoMove 
     \<lparr>LocalLockBlob = (\<lambda>_. True),
       GetHeaderByBufferId = (\<lambda>b. if b = 1 then Some \<lparr>capacity = 8, used = 5\<rparr>
          else if b = 2 then Some \<lparr>capacity = 3, used = 0\<rparr>
          else if b = 3 then Some \<lparr>capacity = 4, used = 0\<rparr> else None),
       buffer_bytes = (\<lambda>b. if b = 1 then [10, 11, 12, 13, 14, 15, 16] else [])\<rparr> 1 [2, 3] 7))))
     = LocalReadBufferById 
     \<lparr>LocalLockBlob = (\<lambda>_. True),
       GetHeaderByBufferId = (\<lambda>b. if b = 1 then Some \<lparr>capacity = 8, used = 5\<rparr>
          else if b = 2 then Some \<lparr>capacity = 3, used = 0\<rparr>
          else if b = 3 then Some \<lparr>capacity = 4, used = 0\<rparr> else None),
       buffer_bytes = (\<lambda>b. if b = 1 then [10, 11, 12, 13, 14, 15, 16] else [])\<rparr> 1 5"
proof -
  define ctx :: MoveContext where "ctx = 
     \<lparr>LocalLockBlob = (\<lambda>_. True),
       GetHeaderByBufferId = (\<lambda>b. if b = 1 then Some \<lparr>capacity = 8, used = 5\<rparr>
          else if b = 2 then Some \<lparr>capacity = 3, used = 0\<rparr>
          else if b = 3 then Some \<lparr>capacity = 4, used = 0\<rparr> else None),
       buffer_bytes = (\<lambda>b. if b = 1 then [10, 11, 12, 13, 14, 15, 16] else [])\<rparr>"
  have h1: "LocalLockBlob ctx 7"
    by (simp add: ctx_def)
  have h2: "GetHeaderByBufferId ctx 1 = Some \<lparr>capacity = 8, used = 5\<rparr>"
    by (simp add: ctx_def)
  have h3: "list_all (\<lambda>d. GetHeaderByBufferId ctx d \<noteq> None) [2, 3]"
    by (simp add: ctx_def)
  have h4: "unat (used \<lparr>capacity = 8, used = 5\<rparr>) \<le> sum_list (map (capacity_of ctx) [2, 3])"
    by (simp add: ctx_def capacity_of_def)
  have run: "BoMove ctx 1 [2, 3] 7
     = ([WriteBuffer 2 [10, 11, 12] 0, WriteBuffer 3 [13, 14] 3, UnlockBlob 7], MoveReturned)"
    by (simp add: ctx_def BoMove_def LocalReadBufferById_def size_t_of_i64_id i64_wrap_id)
  have "concat (map (\<lambda>w. fst (snd w)) (writes_of (fst (BoMove ctx 1 [2, 3] 7))))
     = LocalReadBufferById ctx 1 5"
    using BoMove_fills_destinations [OF h1 h2 h3 h4] by simp
  with h1 run show ?thesis
    unfolding ctx_def by simp
qed

lemma move_loop_first_write:
  assumes "0 \<le> r" and "int off + r = int (length blob)" and "int (length blob) < 2 ^ 63"
    and "writes_of (fst (move_loop ctx blob dests off r)) = (d0, p0, o0) # ws"
  shows "length p0 = min (capacity_of ctx d0) (nat r)"
  using assms
proof (induction dests)
  case Nil
  then show ?case by simp
next
  case (Cons dest rest)
  show ?case
  proof (cases "GetHeaderByBufferId ctx dest")
    case None
    with Cons.prems(4) have "writes_of (fst (move_loop ctx blob rest off r)) = (d0, p0, o0) # ws"
      by (simp add: move_loop_skip [OF None] case_prod_beta del: move_loop.simps)
    with Cons.prems(1-3) show ?thesis
      by (rule Cons.IH)
  next
    case (Some hdr)
    from Cons.prems(4) have "d0 = dest"
      and "p0 = take (min (unat (capacity hdr)) (nat r)) (drop off blob)"
      by (auto simp add: move_loop_step [OF Some Cons.prems(1-3)] case_prod_beta
          simp del: move_loop.simps)
    with Cons.prems(1,2) show ?thesis
      by (simp add: capacity_of_def Some)
  qed
qed

text \<open>
  C5. The offset argument of each write is the running source offset: the number of
  bytes handed to the writes before it. With two or more writes, the first is issued at
  offset 0 and the second at the portion size of the first, which is the smaller of the
  first resolved destination's capacity and \<open>used(src)\<close>.
\<close>

theorem BoMove_write_offsets:
  assumes "GetHeaderByBufferId ctx src = Some src_header"
    and "writes_of (fst (BoMove ctx src destinations blob_id)) = (d0, p0, o0) # (d1, p1, o1) # ws"
  shows "o0 = 0 \<and> o1 = length p0 \<and>
         length p0 = min (capacity_of ctx d0) (unat (used src_header)) \<and>
         runs_from 0 (writes_of (fst (BoMove ctx src destinations blob_id)))"
proof -
  have lock: "LocalLockBlob ctx blob_id"
  proof (rule ccontr)
    assume "\<not> LocalLockBlob ctx blob_id"
    then have "writes_of (fst (BoMove ctx src destinations blob_id)) = []"
      by (simp add: BoMove_def)
    with assms(2) show False
      by simp
  qed
  define blob where "blob = LocalReadBufferById ctx src (unat (used src_header))"
  define W where "W = writes_of (fst (move_loop ctx blob destinations 0 (int (unat (used src_header)))))"
  have w: "writes_of (fst (BoMove ctx src destinations blob_id)) = W"
    unfolding W_def blob_def by (rule BoMove_locked(1) [OF lock assms(1)])
  have len: "length blob = unat (used src_header)"
    by (simp add: blob_def blob_length)
  have i1: "(0::int) \<le> int (unat (used src_header))"
    and i2: "int 0 + int (unat (used src_header)) = int (length blob)"
    by (simp_all add: len)
  have i3: "int (length blob) < 2 ^ 63"
    unfolding len by (rule used_small)
  have run: "runs_from 0 W"
    unfolding W_def using i1 i2 i3 by (rule move_loop_runs_from)
  have W: "W = (d0, p0, o0) # (d1, p1, o1) # ws"
    using assms(2) w by simp
  have first: "length p0 = min (capacity_of ctx d0) (nat (int (unat (used src_header))))"
    using i1 i2 i3 W [unfolded W_def] by (rule move_loop_first_write)
  from run W have "o0 = 0" and "o1 = length p0"
    by simp_all
  with first run show ?thesis
    unfolding w by simp
qed

theorem BoMove_write_offsets_witness:
  "GetHeaderByBufferId 
     \<lparr>LocalLockBlob = (\<lambda>_. True),
       GetHeaderByBufferId = (\<lambda>b. if b = 1 then Some \<lparr>capacity = 8, used = 5\<rparr>
          else if b = 2 then Some \<lparr>capacity = 3, used = 0\<rparr>
          else if b = 3 then Some \<lparr>capacity = 4, used = 0\<rparr> else None),
       buffer_bytes = (\<lambda>b. if b = 1 then [10, 11, 12, 13, 14, 15, 16] else [])\<rparr> 1 = Some \<lparr>capacity = 8, used = 5\<rparr> \<and>
   writes_of (fst (BoMove 
     \<lparr>LocalLockBlob = (\<lambda>_. True),
       GetHeaderByBufferId = (\<lambda>b. if b = 1 then Some \<lparr>capacity = 8, used = 5\<rparr>
          else if b = 2 then Some \<lparr>capacity = 3, used = 0\<rparr>
          else if b = 3 then Some \<lparr>capacity = 4, used = 0\<rparr> else None),
       buffer_bytes = (\<lambda>b. if b = 1 then [10, 11, 12, 13, 14, 15, 16] else [])\<rparr> 1 [2, 3] 7)) = [(2, [10, 11, 12], 0), (3, [13, 14], 3)] \<and>
   (3::nat) = length [10, 11, 12 :: u8] \<and>
   runs_from 0 (writes_of (fst (BoMove 
     \<lparr>LocalLockBlob = (\<lambda>_. True),
       GetHeaderByBufferId = (\<lambda>b. if b = 1 then Some \<lparr>capacity = 8, used = 5\<rparr>
          else if b = 2 then Some \<lparr>capacity = 3, used = 0\<rparr>
          else if b = 3 then Some \<lparr>capacity = 4, used = 0\<rparr> else None),
       buffer_bytes = (\<lambda>b. if b = 1 then [10, 11, 12, 13, 14, 15, 16] else [])\<rparr> 1 [2, 3] 7)))"
proof -
  define ctx :: MoveContext where "ctx = 
     \<lparr>LocalLockBlob = (\<lambda>_. True),
       GetHeaderByBufferId = (\<lambda>b. if b = 1 then Some \<lparr>capacity = 8, used = 5\<rparr>
          else if b = 2 then Some \<lparr>capacity = 3, used = 0\<rparr>
          else if b = 3 then Some \<lparr>capacity = 4, used = 0\<rparr> else None),
       buffer_bytes = (\<lambda>b. if b = 1 then [10, 11, 12, 13, 14, 15, 16] else [])\<rparr>"
  have h1: "GetHeaderByBufferId ctx 1 = Some \<lparr>capacity = 8, used = 5\<rparr>"
    by (simp add: ctx_def)
  have h2: "writes_of (fst (BoMove ctx 1 [2, 3] 7)) = (2, [10, 11, 12], 0) # (3, [13, 14], 3) # []"
    by (simp add: ctx_def BoMove_def LocalReadBufferById_def size_t_of_i64_id i64_wrap_id)
  from BoMove_write_offsets [OF h1 h2] h1 h2 show ?thesis
    unfolding ctx_def by simp
qed

section \<open>Properties of the blob organizer\<close>


lemma choose_target_Some_iff:
  "choose_target ts sz = Some t \<longleftrightarrow>
     (\<exists>pre post. ts = pre @ t # post \<and> sz < target_capacity t \<and>
        list_all (\<lambda>p. target_capacity p \<le> sz) pre)"
proof (induction ts)
  case Nil
  then show ?case by simp
next
  case (Cons a ts)
  show ?case
  proof (cases "sz < target_capacity a")
    case True
    have "(\<exists>pre post. a # ts = pre @ t # post \<and> sz < target_capacity t \<and>
        list_all (\<lambda>p. target_capacity p \<le> sz) pre) \<longleftrightarrow> a = t"
    proof
      assume "\<exists>pre post. a # ts = pre @ t # post \<and> sz < target_capacity t \<and>
        list_all (\<lambda>p. target_capacity p \<le> sz) pre"
      then obtain pre post where d: "a # ts = pre @ t # post"
        and p: "list_all (\<lambda>p. target_capacity p \<le> sz) pre"
        by blast
      show "a = t"
      proof (cases pre)
        case Nil
        with d show ?thesis by simp
      next
        case (Cons x xs)
        with d p have "target_capacity a \<le> sz" by simp
        with True show ?thesis by (simp add: leD)
      qed
    next
      assume "a = t"
      with True have "a # ts = [] @ t # ts \<and> sz < target_capacity t \<and>
        list_all (\<lambda>p. target_capacity p \<le> sz) []"
        by simp
      then show "\<exists>pre post. a # ts = pre @ t # post \<and> sz < target_capacity t \<and>
        list_all (\<lambda>p. target_capacity p \<le> sz) pre"
        by blast
    qed
    with True show ?thesis by simp
  next
    case False
    have "(\<exists>pre post. a # ts = pre @ t # post \<and> sz < target_capacity t \<and>
        list_all (\<lambda>p. target_capacity p \<le> sz) pre) \<longleftrightarrow>
      (\<exists>pre post. ts = pre @ t # post \<and> sz < target_capacity t \<and>
        list_all (\<lambda>p. target_capacity p \<le> sz) pre)"
    proof
      assume "\<exists>pre post. a # ts = pre @ t # post \<and> sz < target_capacity t \<and>
        list_all (\<lambda>p. target_capacity p \<le> sz) pre"
      then obtain pre post where d: "a # ts = pre @ t # post" and s: "sz < target_capacity t"
        and p: "list_all (\<lambda>p. target_capacity p \<le> sz) pre"
        by blast
      show "\<exists>pre post. ts = pre @ t # post \<and> sz < target_capacity t \<and>
        list_all (\<lambda>p. target_capacity p \<le> sz) pre"
      proof (cases pre)
        case Nil
        with d s False show ?thesis by simp
      next
        case (Cons x xs)
        with d p s have "ts = xs @ t # post \<and> sz < target_capacity t \<and>
          list_all (\<lambda>p. target_capacity p \<le> sz) xs"
          by simp
        then show ?thesis by blast
      qed
    next
      assume "\<exists>pre post. ts = pre @ t # post \<and> sz < target_capacity t \<and>
        list_all (\<lambda>p. target_capacity p \<le> sz) pre"
      then obtain pre post where "ts = pre @ t # post" and "sz < target_capacity t"
        and "list_all (\<lambda>p. target_capacity p \<le> sz) pre"
        by blast
      with False have "a # ts = (a # pre) @ t # post \<and> sz < target_capacity t \<and>
        list_all (\<lambda>p. target_capacity p \<le> sz) (a # pre)"
        by simp
      then show "\<exists>pre post. a # ts = pre @ t # post \<and> sz < target_capacity t \<and>
        list_all (\<lambda>p. target_capacity p \<le> sz) pre"
        by blast
    qed
    with False Cons.IH show ?thesis by simp
  qed
qed

lemma choose_target_None_iff:
  "choose_target ts sz = None \<longleftrightarrow> list_all (\<lambda>p. target_capacity p \<le> sz) ts"
  by (induction ts) auto



lemma example_score_fastest:
  "ComputeBlobAccessScore_x \<lparr>min_device_bw_mbps = 100, max_device_bw_mbps = 6000\<rparr>
      [\<lparr>info_id = 1, bandwidth_mbps = 6000, info_size = 1048576\<rparr>]
     = Finite (- 599999 / 35400000)"
  by (rule ComputeBlobAccessScore_x_finite)
    (simp add: ComputeBlobAccessScore_def NormalizeAccessScore_def BytesToMegabytes_def fdiv_def)

lemma example_score_slowest:
  "ComputeBlobAccessScore_x \<lparr>min_device_bw_mbps = 100, max_device_bw_mbps = 6000\<rparr>
      [\<lparr>info_id = 1, bandwidth_mbps = 100, info_size = 1048576\<rparr>]
     = Finite (- 9999 / 590000)"
  by (rule ComputeBlobAccessScore_x_finite)
    (simp add: ComputeBlobAccessScore_def NormalizeAccessScore_def BytesToMegabytes_def fdiv_def)

lemma example_snapshot:
  "snapshot_target_info 
       \<lparr>LocalGetNodeTargets = (\<lambda>_. [1, 2]),
        GetBandwidths = (\<lambda>_ _. [6000, 100]),
        GetRemainingTargetCapacities = (\<lambda>_ _. [0, 2097152]),
        GetBuffers = (\<lambda>st schema. (if schema = [] then [] else [42], st))\<rparr> () = Inr
      [\<lparr>target_id = 1, target_bandwidth_mbps = 6000, target_capacity = 0\<rparr>,
       \<lparr>target_id = 2, target_bandwidth_mbps = 100, target_capacity = 2097152\<rparr>]"
  by (simp add: snapshot_target_info_def upt_rec [of 0] upt_rec [of 1] upt_rec [of 2])


text \<open>
  A pool with one tier: the scores are \<open>-\<infinity>\<close>, no comparison of the validity test holds, and
  the move is enqueued.
\<close>

lemma LocalOrganizeBlob_single_tier_enqueues:
  "ComputeBlobAccessScore_x \<lparr>min_device_bw_mbps = 100, max_device_bw_mbps = 100\<rparr>
      [\<lparr>info_id = 1, bandwidth_mbps = 100, info_size = 1048576\<rparr>] = NegInf \<and>
   LocalOrganizeBlob 
       \<lparr>LocalGetNodeTargets = (\<lambda>_. [1, 2]),
        GetBandwidths = (\<lambda>_ _. [6000, 100]),
        GetRemainingTargetCapacities = (\<lambda>_ _. [0, 2097152]),
        GetBuffers = (\<lambda>st schema. (if schema = [] then [] else [42], st))\<rparr> \<lparr>min_device_bw_mbps = 100, max_device_bw_mbps = 100\<rparr> () 7 0
     [\<lparr>info_id = 1, bandwidth_mbps = 100, info_size = 1048576\<rparr>] (1 / 100) (1 / 2)
   = ([\<lparr>move_src = 1, move_dest = [42], move_blob_id = 7, move_priority = kLow,
        predicted_score = NegInf\<rparr>], (), None)"
proof -
  define env :: "unit OrganizerEnv" where "env = 
       \<lparr>LocalGetNodeTargets = (\<lambda>_. [1, 2]),
        GetBandwidths = (\<lambda>_ _. [6000, 100]),
        GetRemainingTargetCapacities = (\<lambda>_ _. [0, 2097152]),
        GetBuffers = (\<lambda>st schema. (if schema = [] then [] else [42], st))\<rparr>"
  define pool where "pool = \<lparr>min_device_bw_mbps = 100, max_device_bw_mbps = 100\<rparr>"
  have score: "ComputeBlobAccessScore_x pool
      [\<lparr>info_id = 1, bandwidth_mbps = 100, info_size = 1048576\<rparr>] = NegInf"
    by (simp add: pool_def ComputeBlobAccessScore_x_def NormalizeAccessScore_x_def
        BytesToMegabytes_def fx_sub_def fx_inf_def)
  have snap: "snapshot_target_info env () = Inr
      [\<lparr>target_id = 1, target_bandwidth_mbps = 6000, target_capacity = 0\<rparr>,
       \<lparr>target_id = 2, target_bandwidth_mbps = 100, target_capacity = 2097152\<rparr>]"
    unfolding env_def by (rule example_snapshot)
  have gb: "GetBuffers env () [(1048576, 2)] = ([42], ())"
    by (simp add: env_def)
  have "LocalOrganizeBlob env pool () 7 0
     [\<lparr>info_id = 1, bandwidth_mbps = 100, info_size = 1048576\<rparr>] (1 / 100) (1 / 2)
   = ([\<lparr>move_src = 1, move_dest = [42], move_blob_id = 7, move_priority = kLow,
        predicted_score = NegInf\<rparr>], (), None)"
    by (simp add: LocalOrganizeBlob_def score SortBufferInfo_def snap SortTargetInfo_def
        increasing_target_info_comparator_def choose_placement_def gb substitute_bandwidth_def
        move_is_valid_def fx_sub_def)
  with score show ?thesis
    unfolding env_def pool_def by simp
qed

text \<open>A run in which the move is rejected: the new score is above the importance
  score by more than \<open>epsilon\<close>.\<close>

lemma LocalOrganizeBlob_rejects_overshoot:
  "LocalOrganizeBlob 
       \<lparr>LocalGetNodeTargets = (\<lambda>_. [1, 2]),
        GetBandwidths = (\<lambda>_ _. [6000, 100]),
        GetRemainingTargetCapacities = (\<lambda>_ _. [0, 2097152]),
        GetBuffers = (\<lambda>st schema. (if schema = [] then [] else [42], st))\<rparr> \<lparr>min_device_bw_mbps = 100, max_device_bw_mbps = 6000\<rparr> () 7 0
     [\<lparr>info_id = 1, bandwidth_mbps = 6000, info_size = 1048576\<rparr>]
     (1 / 1000000000) (- 4237 / 250000)
   = ([], (), None)"
proof -
  define env :: "unit OrganizerEnv" where "env = 
       \<lparr>LocalGetNodeTargets = (\<lambda>_. [1, 2]),
        GetBandwidths = (\<lambda>_ _. [6000, 100]),
        GetRemainingTargetCapacities = (\<lambda>_ _. [0, 2097152]),
        GetBuffers = (\<lambda>st schema. (if schema = [] then [] else [42], st))\<rparr>"
  define pool where "pool = \<lparr>min_device_bw_mbps = 100, max_device_bw_mbps = 6000\<rparr>"
  have score: "ComputeBlobAccessScore_x pool
      [\<lparr>info_id = 1, bandwidth_mbps = 6000, info_size = 1048576\<rparr>]
      = Finite (- 599999 / 35400000)"
    unfolding pool_def by (rule example_score_fastest)
  have new_score: "ComputeBlobAccessScore_x pool
      [\<lparr>info_id = 1, bandwidth_mbps = 100, info_size = 1048576\<rparr>] = Finite (- 9999 / 590000)"
    unfolding pool_def by (rule example_score_slowest)
  have snap: "snapshot_target_info env () = Inr
      [\<lparr>target_id = 1, target_bandwidth_mbps = 6000, target_capacity = 0\<rparr>,
       \<lparr>target_id = 2, target_bandwidth_mbps = 100, target_capacity = 2097152\<rparr>]"
    unfolding env_def by (rule example_snapshot)
  have gb: "GetBuffers env () [(1048576, 2)] = ([42], ())"
    by (simp add: env_def)
  have "LocalOrganizeBlob env pool () 7 0
     [\<lparr>info_id = 1, bandwidth_mbps = 6000, info_size = 1048576\<rparr>]
     (1 / 1000000000) (- 4237 / 250000)
   = ([], (), None)"
    by (simp add: LocalOrganizeBlob_def score SortBufferInfo_def snap SortTargetInfo_def
        increasing_target_info_comparator_def choose_placement_def gb substitute_bandwidth_def
        new_score move_is_valid_def fx_sub_def)
  then show ?thesis
    unfolding env_def pool_def by simp
qed

text \<open>
  A blob on the slowest tier whose importance score is above its access score: the
  score has to rise, the targets are tried fastest first, and the move that is enqueued
  takes the buffer to the fastest tier, where the predicted score is lower than before.
\<close>

lemma LocalOrganizeBlob_moves_to_fastest_when_increasing:
  "ComputeBlobAccessScore_x \<lparr>min_device_bw_mbps = 100, max_device_bw_mbps = 6000\<rparr>
      [\<lparr>info_id = 1, bandwidth_mbps = 100, info_size = 1048576\<rparr>]
     = Finite (- 9999 / 590000) \<and>
   fx_less (Finite (- 9999 / 590000)) (Finite (1 / 2)) \<and>
   LocalOrganizeBlob 
       \<lparr>LocalGetNodeTargets = (\<lambda>_. [1, 2]),
        GetBandwidths = (\<lambda>_ _. [100, 6000]),
        GetRemainingTargetCapacities = (\<lambda>_ _. [2097152, 2097152]),
        GetBuffers = (\<lambda>st schema. (if schema = [] then [] else [42], st))\<rparr> \<lparr>min_device_bw_mbps = 100, max_device_bw_mbps = 6000\<rparr> () 7 0
     [\<lparr>info_id = 1, bandwidth_mbps = 100, info_size = 1048576\<rparr>] (1 / 100) (1 / 2)
   = ([\<lparr>move_src = 1, move_dest = [42], move_blob_id = 7, move_priority = kLow,
        predicted_score = Finite (- 599999 / 35400000)\<rparr>], (), None) \<and>
   fx_less (Finite (- 599999 / 35400000)) (Finite (- 9999 / 590000))"
proof -
  define env :: "unit OrganizerEnv" where "env = 
       \<lparr>LocalGetNodeTargets = (\<lambda>_. [1, 2]),
        GetBandwidths = (\<lambda>_ _. [100, 6000]),
        GetRemainingTargetCapacities = (\<lambda>_ _. [2097152, 2097152]),
        GetBuffers = (\<lambda>st schema. (if schema = [] then [] else [42], st))\<rparr>"
  define pool where "pool = \<lparr>min_device_bw_mbps = 100, max_device_bw_mbps = 6000\<rparr>"
  have score: "ComputeBlobAccessScore_x pool
      [\<lparr>info_id = 1, bandwidth_mbps = 100, info_size = 1048576\<rparr>] = Finite (- 9999 / 590000)"
    unfolding pool_def by (rule example_score_slowest)
  have new_score: "ComputeBlobAccessScore_x pool
      [\<lparr>info_id = 1, bandwidth_mbps = 6000, info_size = 1048576\<rparr>]
      = Finite (- 599999 / 35400000)"
    unfolding pool_def by (rule example_score_fastest)
  have snap: "snapshot_target_info env () = Inr
      [\<lparr>target_id = 1, target_bandwidth_mbps = 100, target_capacity = 2097152\<rparr>,
       \<lparr>target_id = 2, target_bandwidth_mbps = 6000, target_capacity = 2097152\<rparr>]"
    by (simp add: env_def snapshot_target_info_def upt_rec [of 0] upt_rec [of 1] upt_rec [of 2])
  have gb: "GetBuffers env () [(1048576, 2)] = ([42], ())"
    by (simp add: env_def)
  have "LocalOrganizeBlob env pool () 7 0
     [\<lparr>info_id = 1, bandwidth_mbps = 100, info_size = 1048576\<rparr>] (1 / 100) (1 / 2)
   = ([\<lparr>move_src = 1, move_dest = [42], move_blob_id = 7, move_priority = kLow,
        predicted_score = Finite (- 599999 / 35400000)\<rparr>], (), None)"
    by (simp add: LocalOrganizeBlob_def score SortBufferInfo_def snap SortTargetInfo_def
        increasing_target_info_comparator_def choose_placement_def gb substitute_bandwidth_def
        new_score move_is_valid_def fx_sub_def)
  with score show ?thesis
    unfolding env_def pool_def by simp
qed

text \<open>
  C7 (as the code has it). For a source buffer \<open>b\<close> the chosen target is the first one
  in sorted order whose remaining capacity is strictly greater than the size of \<open>b\<close>;
  the schema asks for that size on that target, and a valid move for the buffers
  obtained is enqueued. A target whose capacity equals the size does not qualify. When
  no target qualifies the schema stays empty, and when \<open>GetBuffers\<close> returns no buffers
  for it the loop goes on to the next buffer without enqueuing a move.
\<close>

theorem organize_chooses_first_strictly_larger:
  assumes "snapshot_target_info env st = Inr target_info"
    and "candidates = SortTargetInfo target_info increasing"
  shows "(\<forall>t. choose_target candidates (info_size b) = Some t \<longleftrightarrow>
            (\<exists>pre post. candidates = pre @ t # post \<and> info_size b < target_capacity t \<and>
               list_all (\<lambda>p. target_capacity p \<le> info_size b) pre)) \<and>
         (\<forall>t. choose_target candidates (info_size b) = Some t \<longrightarrow>
            choose_placement candidates b
              = (info_id b, [(info_size b, target_id t)], target_bandwidth_mbps t)) \<and>
         (\<forall>t dest st' new_access_score.
            choose_target candidates (info_size b) = Some t \<and>
            GetBuffers env st [(info_size b, target_id t)] = (dest, st') \<and> dest \<noteq> [] \<and>
            new_access_score = ComputeBlobAccessScore_x pool
              (substitute_bandwidth buffer_info (info_id b) (target_bandwidth_mbps t)) \<and>
            move_is_valid increasing new_access_score importance_score epsilon \<longrightarrow>
            (\<exists>more. fst (organize_loop env pool blob_id importance_score epsilon increasing
                            buffer_info (b # rest) st)
               = \<lparr>move_src = info_id b, move_dest = dest, move_blob_id = blob_id,
                  move_priority = kLow, predicted_score = new_access_score\<rparr> # more)) \<and>
         (list_all (\<lambda>p. target_capacity p \<le> info_size b) candidates \<longrightarrow>
            choose_placement candidates b = (0, [], 0)) \<and>
         (\<forall>st'. list_all (\<lambda>p. target_capacity p \<le> info_size b) candidates \<and>
            GetBuffers env st [] = ([], st') \<longrightarrow>
            organize_loop env pool blob_id importance_score epsilon increasing buffer_info
              (b # rest) st
            = organize_loop env pool blob_id importance_score epsilon increasing buffer_info
                rest st')"
proof (intro conjI allI impI)
  fix t
  show "choose_target candidates (info_size b) = Some t \<longleftrightarrow>
            (\<exists>pre post. candidates = pre @ t # post \<and> info_size b < target_capacity t \<and>
               list_all (\<lambda>p. target_capacity p \<le> info_size b) pre)"
    by (rule choose_target_Some_iff)
next
  fix t
  assume "choose_target candidates (info_size b) = Some t"
  then show "choose_placement candidates b
              = (info_id b, [(info_size b, target_id t)], target_bandwidth_mbps t)"
    by (simp add: choose_placement_def)
next
  fix t dest st' new_access_score
  assume a: "choose_target candidates (info_size b) = Some t \<and>
            GetBuffers env st [(info_size b, target_id t)] = (dest, st') \<and> dest \<noteq> [] \<and>
            new_access_score = ComputeBlobAccessScore_x pool
              (substitute_bandwidth buffer_info (info_id b) (target_bandwidth_mbps t)) \<and>
            move_is_valid increasing new_access_score importance_score epsilon"
  then have "choose_placement (SortTargetInfo target_info increasing) b
              = (info_id b, [(info_size b, target_id t)], target_bandwidth_mbps t)"
    by (simp add: choose_placement_def assms(2))
  moreover from a have "GetBuffers env st [(info_size b, target_id t)] = (dest, st')"
    and "dest \<noteq> []"
    and "move_is_valid increasing (ComputeBlobAccessScore_x pool
              (substitute_bandwidth buffer_info (info_id b) (target_bandwidth_mbps t)))
           importance_score epsilon"
    and "new_access_score = ComputeBlobAccessScore_x pool
              (substitute_bandwidth buffer_info (info_id b) (target_bandwidth_mbps t))"
    by blast+
  ultimately
  show "\<exists>more. fst (organize_loop env pool blob_id importance_score epsilon increasing
                            buffer_info (b # rest) st)
               = \<lparr>move_src = info_id b, move_dest = dest, move_blob_id = blob_id,
                  move_priority = kLow, predicted_score = new_access_score\<rparr> # more"
    using assms(1) by (simp add: Let_def case_prod_beta)
next
  assume "list_all (\<lambda>p. target_capacity p \<le> info_size b) candidates"
  then have "choose_target candidates (info_size b) = None"
    by (simp add: choose_target_None_iff)
  then show "choose_placement candidates b = (0, [], 0)"
    by (simp add: choose_placement_def)
next
  fix st'
  assume a: "list_all (\<lambda>p. target_capacity p \<le> info_size b) candidates \<and>
            GetBuffers env st [] = ([], st')"
  then have "choose_target candidates (info_size b) = None"
    by (simp add: choose_target_None_iff)
  then have "choose_placement (SortTargetInfo target_info increasing) b = (0, [], 0)"
    by (simp add: choose_placement_def assms(2))
  with a assms(1)
  show "organize_loop env pool blob_id importance_score epsilon increasing buffer_info
              (b # rest) st
            = organize_loop env pool blob_id importance_score epsilon increasing buffer_info
                rest st'"
    by simp
qed

theorem organize_chooses_first_strictly_larger_witness:
  "snapshot_target_info 
       \<lparr>LocalGetNodeTargets = (\<lambda>_. [1, 2]),
        GetBandwidths = (\<lambda>_ _. [6000, 100]),
        GetRemainingTargetCapacities = (\<lambda>_ _. [0, 2097152]),
        GetBuffers = (\<lambda>st schema. (if schema = [] then [] else [42], st))\<rparr> () = Inr
      [\<lparr>target_id = 1, target_bandwidth_mbps = 6000, target_capacity = 0\<rparr>,
       \<lparr>target_id = 2, target_bandwidth_mbps = 100, target_capacity = 2097152\<rparr>] \<and>
   choose_target
      [\<lparr>target_id = 1, target_bandwidth_mbps = 6000, target_capacity = 0\<rparr>,
       \<lparr>target_id = 2, target_bandwidth_mbps = 100, target_capacity = 2097152\<rparr>] 1048576
     = Some \<lparr>target_id = 2, target_bandwidth_mbps = 100, target_capacity = 2097152\<rparr> \<and>
   choose_placement
      [\<lparr>target_id = 1, target_bandwidth_mbps = 6000, target_capacity = 0\<rparr>,
       \<lparr>target_id = 2, target_bandwidth_mbps = 100, target_capacity = 2097152\<rparr>]
      \<lparr>info_id = 1, bandwidth_mbps = 6000, info_size = 1048576\<rparr>
     = (1, [(1048576, 2)], 100)"
proof -
  define env :: "unit OrganizerEnv" where "env = 
       \<lparr>LocalGetNodeTargets = (\<lambda>_. [1, 2]),
        GetBandwidths = (\<lambda>_ _. [6000, 100]),
        GetRemainingTargetCapacities = (\<lambda>_ _. [0, 2097152]),
        GetBuffers = (\<lambda>st schema. (if schema = [] then [] else [42], st))\<rparr>"
  define t1 where "t1 = \<lparr>target_id = 1, target_bandwidth_mbps = 6000, target_capacity = 0\<rparr>"
  define t2 where "t2 = \<lparr>target_id = 2, target_bandwidth_mbps = 100, target_capacity = 2097152\<rparr>"
  define b where "b = \<lparr>info_id = 1, bandwidth_mbps = 6000, info_size = 1048576\<rparr>"
  have snap: "snapshot_target_info env () = Inr [t1, t2]"
    by (simp add: env_def t1_def t2_def snapshot_target_info_def
        upt_rec [of 0] upt_rec [of 1] upt_rec [of 2])
  have srt: "[t1, t2] = SortTargetInfo [t1, t2] True"
    by (simp add: SortTargetInfo_def increasing_target_info_comparator_def t1_def t2_def)
  have chosen: "choose_target [t1, t2] (info_size b) = Some t2"
    by (simp add: t1_def t2_def b_def)
  from organize_chooses_first_strictly_larger [OF snap srt, of b]
  have "choose_target [t1, t2] (info_size b) = Some t2 \<longrightarrow>
      choose_placement [t1, t2] b = (info_id b, [(info_size b, target_id t2)], target_bandwidth_mbps t2)"
    by blast
  with chosen have "choose_placement [t1, t2] b = (1, [(1048576, 2)], 100)"
    by (simp add: b_def t2_def)
  with snap chosen show ?thesis
    unfolding env_def t1_def t2_def b_def by simp
qed

text \<open>
  C7 as stated fails for a target whose remaining capacity equals the buffer size
  (1 MiB each): it is not chosen, and \<open>LocalOrganizeBlob\<close> enqueues nothing.
\<close>

theorem exact_fit_target_not_chosen_counterexample:
  "info_size \<lparr>info_id = 1, bandwidth_mbps = 6000, info_size = 1048576\<rparr>
     \<le> target_capacity \<lparr>target_id = 2, target_bandwidth_mbps = 100, target_capacity = 1048576\<rparr> \<and>
   choose_target
     (SortTargetInfo [\<lparr>target_id = 2, target_bandwidth_mbps = 100, target_capacity = 1048576\<rparr>] True)
     (info_size \<lparr>info_id = 1, bandwidth_mbps = 6000, info_size = 1048576\<rparr>) = None \<and>
   LocalOrganizeBlob 
       \<lparr>LocalGetNodeTargets = (\<lambda>_. [2]),
        GetBandwidths = (\<lambda>_ _. [100]),
        GetRemainingTargetCapacities = (\<lambda>_ _. [1048576]),
        GetBuffers = (\<lambda>st schema. (if schema = [] then [] else [42], st))\<rparr> \<lparr>min_device_bw_mbps = 100, max_device_bw_mbps = 6000\<rparr> () 7 0
     [\<lparr>info_id = 1, bandwidth_mbps = 6000, info_size = 1048576\<rparr>] (1 / 100) (1 / 2)
   = ([], (), None)"
proof -
  define env :: "unit OrganizerEnv" where "env = 
       \<lparr>LocalGetNodeTargets = (\<lambda>_. [2]),
        GetBandwidths = (\<lambda>_ _. [100]),
        GetRemainingTargetCapacities = (\<lambda>_ _. [1048576]),
        GetBuffers = (\<lambda>st schema. (if schema = [] then [] else [42], st))\<rparr>"
  define pool where "pool = \<lparr>min_device_bw_mbps = 100, max_device_bw_mbps = 6000\<rparr>"
  have score: "ComputeBlobAccessScore_x pool
      [\<lparr>info_id = 1, bandwidth_mbps = 6000, info_size = 1048576\<rparr>]
      = Finite (- 599999 / 35400000)"
    unfolding pool_def by (rule example_score_fastest)
  have snap: "snapshot_target_info env () = Inr
      [\<lparr>target_id = 2, target_bandwidth_mbps = 100, target_capacity = 1048576\<rparr>]"
    by (simp add: env_def snapshot_target_info_def upt_rec [of 0] upt_rec [of 1])
  have gb: "GetBuffers env () [] = ([], ())"
    by (simp add: env_def)
  have "LocalOrganizeBlob env pool () 7 0
     [\<lparr>info_id = 1, bandwidth_mbps = 6000, info_size = 1048576\<rparr>] (1 / 100) (1 / 2)
   = ([], (), None)"
    by (simp add: LocalOrganizeBlob_def score SortBufferInfo_def snap SortTargetInfo_def
        choose_placement_def gb)
  then show ?thesis
    unfolding env_def pool_def by (simp add: SortTargetInfo_def)
qed

section \<open>Properties of the flush coordinator\<close>

lemma LocalAdjustFlushCount_inverse:
  "LocalAdjustFlushCount (LocalAdjustFlushCount counts name 1) name (- 1) = counts"
  by (cases "counts name") (auto simp add: LocalAdjustFlushCount_def fun_eq_iff)

lemma DecrementFlushCount_IncrementFlushCount:
  "DecrementFlushCount env (IncrementFlushCount env cl name) name = cl"
  by (simp add: DecrementFlushCount_def IncrementFlushCount_def Let_def
      RemoteIncrementFlushCount_def RemoteDecrementFlushCount_def
      LocalIncrementFlushCount_def LocalDecrementFlushCount_def LocalAdjustFlushCount_inverse)

lemma flush_locked_part_no_decrement:
  "DecrementedFlushCount name \<notin> set (fst (flush_locked_part sys blob_id filename offset))"
  by (simp add: flush_locked_part_def Let_def)

lemma count_list_notin: "x \<notin> set xs \<Longrightarrow> count_list xs x = 0"
  by (induction xs) auto

lemma count_list_snoc: "count_list (xs @ [y]) x = count_list xs x + (if x = y then 1 else 0)"
  by (induction xs) auto

lemma FlushBlob_async_completed:
  assumes "snd (FlushBlob env sys cl blob_id filename offset True) = Inr cl'"
  shows "cl' = DecrementFlushCount env cl filename"
    and "fst (FlushBlob env sys cl blob_id filename offset True)
          = fst (flush_locked_part sys blob_id filename offset) @ [DecrementedFlushCount filename]"
  using assms
  by (auto simp add: FlushBlob_def split: prod.splits option.splits)

text \<open>
  C8. A flush task that \<open>LocalEnqueueFlushingTask\<close> accepts increments the counter of
  its vbucket once, before the dispatch to the pool. A \<open>FlushBlob\<close> with \<open>async\<close> that
  completes (no fatal library call) decrements it once, as its last step, also when the
  blob lock is not acquired. The decrement undoes the increment: a task that runs
  directly after its enqueue leaves the counters as they were before it.
\<close>

theorem async_flush_counter_balanced:
  assumes "\<not> BlobIsInSwap env blob_id"
    and "snd (FlushBlob env sys cl2 blob_id filename offset True) = Inr cl3"
  shows "LocalEnqueueFlushingTask env cl blob_id filename offset
           = (True, IncrementFlushCount env cl filename,
              [IncrementedFlushCount filename, Dispatched blob_id filename offset True]) \<and>
         cl3 = DecrementFlushCount env cl2 filename \<and>
         count_list (fst (FlushBlob env sys cl2 blob_id filename offset True))
           (DecrementedFlushCount filename) = 1 \<and>
         last (fst (FlushBlob env sys cl2 blob_id filename offset True))
           = DecrementedFlushCount filename \<and>
         (\<not> lock_acquired sys \<longrightarrow>
            FlushBlob env sys cl2 blob_id filename offset True
              = ([DecrementedFlushCount filename], Inr (DecrementFlushCount env cl2 filename))) \<and>
         DecrementFlushCount env (IncrementFlushCount env cl filename) filename = cl \<and>
         (cl2 = IncrementFlushCount env cl filename \<longrightarrow>
            cl3 = cl \<and> flush_count env cl3 filename = flush_count env cl filename)"
proof -
  note c = FlushBlob_async_completed [OF assms(2)]
  have "count_list (fst (flush_locked_part sys blob_id filename offset))
          (DecrementedFlushCount filename) = 0"
    by (rule count_list_notin) (rule flush_locked_part_no_decrement)
  then have one: "count_list (fst (FlushBlob env sys cl2 blob_id filename offset True))
           (DecrementedFlushCount filename) = 1"
    by (simp add: c(2) count_list_snoc)
  have lock: "\<not> lock_acquired sys \<longrightarrow>
            FlushBlob env sys cl2 blob_id filename offset True
              = ([DecrementedFlushCount filename], Inr (DecrementFlushCount env cl2 filename))"
    by (simp add: FlushBlob_def flush_locked_part_def)
  from assms(1) one lock show ?thesis
    by (simp add: LocalEnqueueFlushingTask_def c DecrementFlushCount_IncrementFlushCount)
qed

theorem async_flush_counter_balanced_witness:
  "\<not> BlobIsInSwap \<lparr>node_id = 0, HashString = (\<lambda>_. 0), BlobIsInSwap = (\<lambda>_. False)\<rparr> 7 \<and>
   snd (FlushBlob \<lparr>node_id = 0, HashString = (\<lambda>_. 0), BlobIsInSwap = (\<lambda>_. False)\<rparr>
          \<lparr>lock_acquired = True, file_exists = False, open_ok = True, flock_ex_ok = True,
        flock_un_ok = True, close_ok = True\<rparr>
          (IncrementFlushCount \<lparr>node_id = 0, HashString = (\<lambda>_. 0), BlobIsInSwap = (\<lambda>_. False)\<rparr> (\<lambda>n name. if n = 0 \<and> name = ''out'' then Some 0 else None) ''out'') 7 ''out'' 0 True)
     = Inr (\<lambda>n name. if n = 0 \<and> name = ''out'' then Some 0 else None) \<and>
   flush_count \<lparr>node_id = 0, HashString = (\<lambda>_. 0), BlobIsInSwap = (\<lambda>_. False)\<rparr> (\<lambda>n name. if n = 0 \<and> name = ''out'' then Some 0 else None) ''out'' = Some 0 \<and>
   flush_count \<lparr>node_id = 0, HashString = (\<lambda>_. 0), BlobIsInSwap = (\<lambda>_. False)\<rparr> (IncrementFlushCount \<lparr>node_id = 0, HashString = (\<lambda>_. 0), BlobIsInSwap = (\<lambda>_. False)\<rparr> (\<lambda>n name. if n = 0 \<and> name = ''out'' then Some 0 else None) ''out'') ''out'' = Some 1"
proof -
  define env where "env = \<lparr>node_id = 0, HashString = (\<lambda>_. 0), BlobIsInSwap = (\<lambda>_. False)\<rparr>"
  define sys where "sys = \<lparr>lock_acquired = True, file_exists = False, open_ok = True, flock_ex_ok = True,
        flock_un_ok = True, close_ok = True\<rparr>"
  define cl :: cluster where "cl = (\<lambda>n name. if n = 0 \<and> name = ''out'' then Some 0 else None)"
  have h1: "\<not> BlobIsInSwap env 7"
    by (simp add: env_def)
  have h2: "snd (FlushBlob env sys (IncrementFlushCount env cl ''out'') 7 ''out'' 0 True)
     = Inr (DecrementFlushCount env (IncrementFlushCount env cl ''out'') ''out'')"
    by (simp add: sys_def FlushBlob_def flush_locked_part_def)
  from async_flush_counter_balanced [OF h1 h2, of cl]
  have "DecrementFlushCount env (IncrementFlushCount env cl ''out'') ''out'' = cl"
    by blast
  with h2 have run: "snd (FlushBlob env sys (IncrementFlushCount env cl ''out'') 7 ''out'' 0 True)
     = Inr cl"
    by simp
  have c0: "flush_count env cl ''out'' = Some 0"
    by (simp add: flush_count_def env_def cl_def)
  have c1: "flush_count env (IncrementFlushCount env cl ''out'') ''out'' = Some 1"
    by (simp add: flush_count_def env_def cl_def IncrementFlushCount_def
        LocalIncrementFlushCount_def LocalAdjustFlushCount_def)
  from h1 run c0 c1 show ?thesis
    unfolding env_def sys_def cl_def by blast
qed

section \<open>Properties of the serialization\<close>

text \<open>
  For the types whose members are known, loading from an archive that starts with what
  a value was saved as gives the value back and leaves the rest of the archive.
\<close>

lemma serialization_roundtrip_known_types:
  "load_BufferID (save_BufferID buffer_id @ ar) = Some (buffer_id, ar) \<and>
   load_BucketID (save_BucketID bucket_id @ ar) = Some (bucket_id, ar) \<and>
   load_VBucketID (save_VBucketID vbucket_id @ ar) = Some (vbucket_id, ar) \<and>
   load_BlobID (save_BlobID blob_id @ ar) = Some (blob_id, ar) \<and>
   load_TargetID (save_TargetID tid @ ar) = Some (tid, ar) \<and>
   load_SwapBlob (save_SwapBlob swap_blob @ ar) = Some (swap_blob, ar) \<and>
   load_BufferInfo (save_BufferInfo info @ ar) = Some (info, ar) \<and>
   load_BoOperation (save_BoOperation op @ ar) = Some (op, ar)"
  by (simp add: load_BufferID_def save_BufferID_def load_BucketID_def save_BucketID_def
      load_VBucketID_def save_VBucketID_def load_BlobID_def save_BlobID_def
      load_TargetID_def save_TargetID_def load_SwapBlob_def save_SwapBlob_def
      load_BufferInfo_def save_BufferInfo_def load_BoOperation_def save_BoOperation_def)

end
